theory Spec2Isabelle
  imports Complex_Main "HOL-Library.Word" "HOL-Library.AList"
begin

unbundle bit_operations_syntax

section \<open>Kernel probes of the container life cycle (container_trace.c, common.h)\<close>

type_synonym u8 = "8 word"
type_synonym u32 = "32 word"
type_synonym u64 = "64 word"

text \<open>Constants of common.h.\<close>

definition MAX_CONTAINERS :: nat where "MAX_CONTAINERS = 1000"

definition CONTAINER_STATUS_UNKNOWN :: u32 where "CONTAINER_STATUS_UNKNOWN = 0"
definition CONTAINER_STATUS_CREATED :: u32 where "CONTAINER_STATUS_CREATED = 1"
definition CONTAINER_STATUS_RUNNING :: u32 where "CONTAINER_STATUS_RUNNING = 2"
definition CONTAINER_STATUS_PAUSED :: u32 where "CONTAINER_STATUS_PAUSED = 3"
definition CONTAINER_STATUS_STOPPED :: u32 where "CONTAINER_STATUS_STOPPED = 4"
definition CONTAINER_STATUS_EXITED :: u32 where "CONTAINER_STATUS_EXITED = 5"

definition EVENT_CONTAINER_START :: u32 where "EVENT_CONTAINER_START = 1"
definition EVENT_CONTAINER_STOP :: u32 where "EVENT_CONTAINER_STOP = 2"

text \<open>Indices into stats_map.\<close>

definition STAT_CONTAINERS_CREATED :: nat where "STAT_CONTAINERS_CREATED = 0"
definition STAT_CONTAINERS_STOPPED :: nat where "STAT_CONTAINERS_STOPPED = 1"
definition STAT_EVENTS_SENT :: nat where "STAT_EVENTS_SENT = 2"
definition STAT_EVENTS_DROPPED :: nat where "STAT_EVENTS_DROPPED = 3"

text \<open>struct container_info; the two char arrays are byte lists.\<close>

record container_info =
  ci_cgroup_id :: u64
  ci_pid :: u32
  ci_ppid :: u32
  ci_container_id :: "u8 list"
  ci_comm :: "u8 list"
  ci_start_time :: u64
  ci_cpu_usage :: u32
  ci_memory_usage :: u64
  ci_status :: u32

text \<open>struct flow_stats, the second member of the event union.\<close>

record flow_stats =
  fs_packets :: u64
  fs_bytes :: u64
  fs_latency_sum :: u64
  fs_latency_count :: u32
  fs_last_seen :: u64
  fs_tcp_retransmits :: u32
  fs_flags :: u32

text \<open>The union inside struct event_data.\<close>

datatype event_payload =
    PContainer container_info
  | PNetwork flow_stats
  | PValue u64

record event_data =
  ev_type :: u32
  ev_timestamp :: u64
  ev_cgroup_id :: u64
  ev_pid :: u32
  ev_data :: event_payload

text \<open>
  The four maps of the object file. The two LRU hashes are association lists with a
  capacity; the ring buffer is the list of submitted records, oldest first; stats_map is
  an array of ten counters.
\<close>

record kernel =
  container_map :: "(u64 \<times> container_info) list"
  pid_to_cgroup_map :: "(u32 \<times> u64) list"
  events :: "event_data list"
  stats_map :: "u64 list"

definition init_kernel :: kernel where
  "init_kernel = \<lparr>container_map = [], pid_to_cgroup_map = [], events = [],
     stats_map = replicate 10 0\<rparr>"

text \<open>
  What the helpers of the kernel hand to one probe invocation: the current task, its
  cgroup id, pid_tgid, the two clock readings, the command name, the bytes that follow
  the local variable cgroup_id on the stack (bpf_probe_read_kernel_str reads a string
  starting at that variable), whether bpf_ringbuf_reserve finds room, and the entries the
  kernel chooses to evict from the two LRU hashes, if any.
\<close>

record probe_ctx =
  has_task :: bool
  cur_cgroup :: u64
  pid_tgid :: u64
  ktime :: u64
  ktime2 :: u64
  cur_comm :: "u8 list"
  stack_after :: "u8 list"
  ringbuf_room :: bool
  evict_container :: "nat option"
  evict_pid :: "nat option"

text \<open>
  bpf_map_update_elem with BPF_ANY on an LRU hash of the given capacity. A key the map
  holds keeps its place. A new key may cost another entry its place: the kernel may
  evict the entry at a position of its choice (victim), also before the map is full; a
  full map loses its oldest entry when the kernel names none.
\<close>

definition lru_update :: "nat \<Rightarrow> nat option \<Rightarrow> 'k \<Rightarrow> 'v \<Rightarrow> ('k \<times> 'v) list \<Rightarrow> ('k \<times> 'v) list" where
  "lru_update cap victim k v m =
     (if map_of m k \<noteq> None then AList.update k v m
      else case victim of
        Some i \<Rightarrow> take (i mod length m) m @ drop (Suc (i mod length m)) m @ [(k, v)]
      | None \<Rightarrow> (if length m < cap then m else tl m) @ [(k, v)])"

definition get_current_cgroup_id :: "probe_ctx \<Rightarrow> u64" where
  "get_current_cgroup_id ctx = (if \<not> has_task ctx then 0 else cur_cgroup ctx)"

definition is_container_process :: "u64 \<Rightarrow> bool" where
  "is_container_process cgroup_id \<longleftrightarrow> cgroup_id \<noteq> 0 \<and> cgroup_id \<noteq> 1"

definition update_stats :: "nat \<Rightarrow> kernel \<Rightarrow> kernel" where
  "update_stats index k =
     (if index < length (stats_map k)
      then k\<lparr>stats_map := (stats_map k)[index := stats_map k ! index + 1]\<rparr>
      else k)"

text \<open>send_event returns -1 when the reservation fails and 0 otherwise; no caller reads it.\<close>

definition send_event :: "probe_ctx \<Rightarrow> event_data \<Rightarrow> kernel \<Rightarrow> kernel" where
  "send_event ctx event k =
     (if \<not> ringbuf_room ctx then update_stats STAT_EVENTS_DROPPED k
      else update_stats STAT_EVENTS_SENT (k\<lparr>events := events k @ [event]\<rparr>))"

definition current_pid :: "probe_ctx \<Rightarrow> u32" where
  "current_pid ctx = ucast (drop_bit 32 (pid_tgid ctx))"

text \<open>The bytes of a 64-bit value in memory (little endian).\<close>

definition le_bytes :: "u64 \<Rightarrow> u8 list" where
  "le_bytes w = map (\<lambda>i. ucast (drop_bit (8 * i) w)) [0..<8]"

text \<open>
  memset of the 64-byte field followed by bpf_probe_read_kernel_str(dst, 16, &cgroup_id):
  at most 15 bytes up to the first NUL, the rest of the field stays zero.
\<close>

definition read_container_id :: "probe_ctx \<Rightarrow> u64 \<Rightarrow> u8 list" where
  "read_container_id ctx cgroup_id =
     (let s = take 15 (takeWhile (\<lambda>b. b \<noteq> 0) (le_bytes cgroup_id @ stack_after ctx))
      in s @ replicate (64 - length s) 0)"

text \<open>
  Every probe returns 0; the model returns the maps it leaves behind. One invocation of
  a probe runs from entry to return before the next one starts.
\<close>

definition trace_container_start :: "probe_ctx \<Rightarrow> kernel \<Rightarrow> kernel" where
  "trace_container_start ctx k =
     (let cgroup_id = get_current_cgroup_id ctx; pid = current_pid ctx in
      if \<not> is_container_process cgroup_id then k
      else
        let k1 = k\<lparr>pid_to_cgroup_map :=
                   lru_update (MAX_CONTAINERS * 10) (evict_pid ctx) pid cgroup_id (pid_to_cgroup_map k)\<rparr>
        in case map_of (container_map k1) cgroup_id of
             Some existing \<Rightarrow> k1
           | None \<Rightarrow>
               let container = \<lparr>ci_cgroup_id = cgroup_id, ci_pid = pid, ci_ppid = current_pid ctx,
                     ci_container_id = read_container_id ctx cgroup_id, ci_comm = cur_comm ctx,
                     ci_start_time = ktime ctx, ci_cpu_usage = 0, ci_memory_usage = 0,
                     ci_status = CONTAINER_STATUS_CREATED\<rparr>;
                   k2 = k1\<lparr>container_map :=
                          lru_update MAX_CONTAINERS (evict_container ctx) cgroup_id container (container_map k1)\<rparr>;
                   event = \<lparr>ev_type = EVENT_CONTAINER_START, ev_timestamp = ktime2 ctx,
                     ev_cgroup_id = cgroup_id, ev_pid = pid, ev_data = PContainer container\<rparr>
               in update_stats STAT_CONTAINERS_CREATED (send_event ctx event k2))"

definition trace_container_stop :: "probe_ctx \<Rightarrow> kernel \<Rightarrow> kernel" where
  "trace_container_stop ctx k =
     (let cgroup_id = get_current_cgroup_id ctx; pid = current_pid ctx in
      if \<not> is_container_process cgroup_id then k
      else case map_of (container_map k) cgroup_id of
             None \<Rightarrow> k
           | Some container \<Rightarrow>
               if ci_pid container \<noteq> pid then k
               else
                 let container' = container\<lparr>ci_status := CONTAINER_STATUS_STOPPED\<rparr>;
                     k1 = k\<lparr>container_map := AList.update cgroup_id container' (container_map k)\<rparr>;
                     event = \<lparr>ev_type = EVENT_CONTAINER_STOP, ev_timestamp = ktime ctx,
                       ev_cgroup_id = cgroup_id, ev_pid = pid, ev_data = PContainer container'\<rparr>;
                     k2 = update_stats STAT_CONTAINERS_STOPPED (send_event ctx event k1);
                     k3 = k2\<lparr>container_map := AList.delete cgroup_id (container_map k2)\<rparr>
                 in k3\<lparr>pid_to_cgroup_map := AList.delete pid (pid_to_cgroup_map k3)\<rparr>)"

definition kprobe_cgroup_attach :: "probe_ctx \<Rightarrow> kernel \<Rightarrow> kernel" where
  "kprobe_cgroup_attach ctx k =
     (let cgroup_id = get_current_cgroup_id ctx; pid = current_pid ctx in
      if \<not> is_container_process cgroup_id then k
      else
        let k1 = k\<lparr>pid_to_cgroup_map :=
                   lru_update (MAX_CONTAINERS * 10) (evict_pid ctx) pid cgroup_id (pid_to_cgroup_map k)\<rparr>
        in case map_of (container_map k1) cgroup_id of
             None \<Rightarrow> k1
           | Some container \<Rightarrow>
               if ci_status container = CONTAINER_STATUS_CREATED then
                 let container' = container\<lparr>ci_status := CONTAINER_STATUS_RUNNING\<rparr>;
                     k2 = k1\<lparr>container_map := AList.update cgroup_id container' (container_map k1)\<rparr>;
                     event = \<lparr>ev_type = EVENT_CONTAINER_START, ev_timestamp = ktime ctx,
                       ev_cgroup_id = cgroup_id, ev_pid = pid, ev_data = PContainer container'\<rparr>
                 in send_event ctx event k2
               else k1)"

definition trace_process_exec :: "probe_ctx \<Rightarrow> kernel \<Rightarrow> kernel" where
  "trace_process_exec ctx k =
     (let cgroup_id = get_current_cgroup_id ctx in
      if \<not> is_container_process cgroup_id then k
      else case map_of (container_map k) cgroup_id of
             None \<Rightarrow> k
           | Some container \<Rightarrow>
               let c1 = container\<lparr>ci_comm := cur_comm ctx\<rparr>;
                   c2 = (if ci_status c1 = CONTAINER_STATUS_CREATED
                         then c1\<lparr>ci_status := CONTAINER_STATUS_RUNNING\<rparr> else c1)
               in k\<lparr>container_map := AList.update cgroup_id c2 (container_map k)\<rparr>)"

text \<open>The four entry points, and a run of the kernel: one probe after the other.\<close>

datatype probe = Clone | Exit | CgroupAttach | Exec

fun run_probe :: "probe \<Rightarrow> probe_ctx \<Rightarrow> kernel \<Rightarrow> kernel" where
  "run_probe Clone ctx k = trace_container_start ctx k"
| "run_probe Exit ctx k = trace_container_stop ctx k"
| "run_probe CgroupAttach ctx k = kprobe_cgroup_attach ctx k"
| "run_probe Exec ctx k = trace_process_exec ctx k"

fun run_probes :: "(probe \<times> probe_ctx) list \<Rightarrow> kernel \<Rightarrow> kernel" where
  "run_probes [] k = k"
| "run_probes ((p, ctx) # ps) k = run_probes ps (run_probe p ctx k)"

definition container_keys :: "kernel \<Rightarrow> u64 set" where
  "container_keys k = fst ` set (container_map k)"

section \<open>The monitor (monitor.go)\<close>

text \<open>
  ContainerMetric. float64 fields are real numbers (rounding is not modelled), a
  time.Time is an integer time stamp in nanoseconds.
\<close>

record ContainerMetric =
  cm_ID :: string
  cm_Name :: string
  cm_PID :: u32
  cm_CPUPercent :: real
  cm_MemoryPercent :: real
  cm_MemoryUsage :: u64
  cm_NetworkLatency :: real
  cm_TCPRetransmits :: u32
  cm_Status :: string
  cm_StartTime :: int

definition zero_ContainerMetric :: ContainerMetric where
  "zero_ContainerMetric = \<lparr>cm_ID = [], cm_Name = [], cm_PID = 0, cm_CPUPercent = 0,
     cm_MemoryPercent = 0, cm_MemoryUsage = 0, cm_NetworkLatency = 0, cm_TCPRetransmits = 0,
     cm_Status = [], cm_StartTime = 0\<rparr>"

text \<open>
  A value of type []ContainerMetric: nil, or the address of a backing array and a
  length. Every slice of the monitor starts at the head of its array.
\<close>

datatype slice = NilSlice | Slice nat nat

record Metrics =
  Containers :: slice
  SystemMemory :: u64
  EBPFMapsCount :: int
  LastUpdate :: int

text \<open>
  The store: backing arrays and Metrics objects, each addressed by its position. An
  allocation appends, so a new address is one no earlier pointer holds.
\<close>

record heap =
  arrays :: "ContainerMetric list list"
  objects :: "Metrics list"

fun slice_len :: "slice \<Rightarrow> nat" where
  "slice_len NilSlice = 0"
| "slice_len (Slice a n) = n"

fun slice_elems :: "heap \<Rightarrow> slice \<Rightarrow> ContainerMetric list" where
  "slice_elems h NilSlice = []"
| "slice_elems h (Slice a n) = take n (arrays h ! a)"

text \<open>make([]ContainerMetric, n)\<close>

definition make_slice :: "heap \<Rightarrow> nat \<Rightarrow> slice \<times> heap" where
  "make_slice h n =
     (Slice (length (arrays h)) n, h\<lparr>arrays := arrays h @ [replicate n zero_ContainerMetric]\<rparr>)"

text \<open>copy(dst, src): the first min (len dst) (len src) elements.\<close>

definition copy_slice :: "heap \<Rightarrow> slice \<Rightarrow> slice \<Rightarrow> heap" where
  "copy_slice h dst src =
     (case dst of
        NilSlice \<Rightarrow> h
      | Slice a n \<Rightarrow>
          let xs = take n (slice_elems h src)
          in h\<lparr>arrays := (arrays h)[a := xs @ drop (length xs) (arrays h ! a)]\<rparr>)"

text \<open>
  The collection specification and the loaded collection, by the names of their maps
  and programs; a link by the hook it is attached to.
\<close>

record CollectionSpec =
  spec_maps :: "string list"
  spec_programs :: "string list"

record Collection =
  coll_maps :: "string list"
  coll_programs :: "string list"

type_synonym link = string

text \<open>
  The Monitor. mon_metrics is the pointer to the Metrics object; processor_running and
  processor_cancelled are the fields of the DataProcessor that Start and Stop reach.
\<close>

record Monitor =
  mon_spec :: "CollectionSpec option"
  mon_coll :: "Collection option"
  mon_links :: "link list"
  running :: bool
  startTime :: int
  mon_metrics :: nat
  processor_running :: bool
  processor_cancelled :: bool

text \<open>
  What the system answers during one call of Start: the specification loadPrograms
  merges from the two object files, the outcome of ebpf.NewCollection, the hooks whose
  attachment is refused, and the clock.
\<close>

record start_env =
  env_spec :: CollectionSpec
  env_new_collection :: "string + Collection"
  env_attach_fails :: "string \<Rightarrow> bool"
  env_now :: int

datatype start_error =
    AlreadyRunning
  | LoadFailed string
  | AttachFailed string
  | ProcessorStartFailed

text \<open>NewMonitor, given whether rlimit.RemoveMemlock succeeds.\<close>

definition NewMonitor :: "bool \<Rightarrow> heap \<Rightarrow> (Monitor \<times> heap) option" where
  "NewMonitor rlimit_ok h =
     (if \<not> rlimit_ok then None
      else
        let (cs, h1) = make_slice h 0;
            obj = \<lparr>Containers = cs, SystemMemory = 0, EBPFMapsCount = 0, LastUpdate = 0\<rparr>;
            h2 = h1\<lparr>objects := objects h1 @ [obj]\<rparr>
        in Some (\<lparr>mon_spec = None, mon_coll = None, mon_links = [], running = False,
                   startTime = 0, mon_metrics = length (objects h1), processor_running = False,
                   processor_cancelled = False\<rparr>, h2))"

definition loadPrograms :: "start_env \<Rightarrow> Monitor \<Rightarrow> string option \<times> Monitor" where
  "loadPrograms env m =
     (let m1 = m\<lparr>mon_spec := Some (env_spec env)\<rparr>
      in case env_new_collection env of
           Inl e \<Rightarrow> (Some e, m1)
         | Inr c \<Rightarrow> (None, m1\<lparr>mon_coll := Some c\<rparr>))"

text \<open>
  One block of attachContainerTracing or attachNetworkMonitoring: a program the
  collection does not hold is passed over. Reading m.coll.Programs through a nil
  collection panics.
\<close>

definition attach_hook :: "start_env \<Rightarrow> string \<Rightarrow> string \<Rightarrow> Monitor \<Rightarrow> string option \<times> Monitor" where
  "attach_hook env prog hook m =
     (case mon_coll m of
        None \<Rightarrow> (Some ''panic: nil collection'', m)
      | Some c \<Rightarrow>
          if prog \<in> set (coll_programs c) then
            if env_attach_fails env hook then (Some hook, m)
            else (None, m\<lparr>mon_links := mon_links m @ [hook]\<rparr>)
          else (None, m))"

fun attach_all :: "start_env \<Rightarrow> (string \<times> string) list \<Rightarrow> Monitor \<Rightarrow> string option \<times> Monitor" where
  "attach_all env [] m = (None, m)"
| "attach_all env ((prog, hook) # rest) m =
     (case attach_hook env prog hook m of
        (Some e, m') \<Rightarrow> (Some e, m')
      | (None, m') \<Rightarrow> attach_all env rest m')"

definition attachContainerTracing :: "start_env \<Rightarrow> Monitor \<Rightarrow> string option \<times> Monitor" where
  "attachContainerTracing env m =
     attach_all env
       [(''trace_container_start'', ''syscalls/sys_enter_clone''),
        (''trace_container_stop'', ''syscalls/sys_enter_exit''),
        (''kprobe_cgroup_attach'', ''cgroup_attach_task''),
        (''trace_process_exec'', ''sched/sched_process_exec'')] m"

definition attachNetworkMonitoring :: "start_env \<Rightarrow> Monitor \<Rightarrow> string option \<times> Monitor" where
  "attachNetworkMonitoring env m =
     attach_all env
       [(''kprobe_tcp_retransmit'', ''tcp_retransmit_skb''),
        (''trace_tcp_probe'', ''tcp/tcp_probe'')] m"

definition attachPrograms :: "start_env \<Rightarrow> Monitor \<Rightarrow> string option \<times> Monitor" where
  "attachPrograms env m =
     (case attachContainerTracing env m of
        (Some e, m1) \<Rightarrow> (Some e, m1)
      | (None, m1) \<Rightarrow> attachNetworkMonitoring env m1)"

definition cleanup :: "Monitor \<Rightarrow> Monitor" where
  "cleanup m = m\<lparr>mon_links := [], mon_coll := None\<rparr>"

text \<open>DataProcessor.Start and DataProcessor.Stop (processor.go).\<close>

definition processor_Start :: "Monitor \<Rightarrow> string option \<times> Monitor" where
  "processor_Start m =
     (if processor_running m then (Some ''processor already running'', m)
      else (None, m\<lparr>processor_running := True\<rparr>))"

definition processor_Stop :: "Monitor \<Rightarrow> Monitor" where
  "processor_Stop m =
     (if \<not> processor_running m then m
      else m\<lparr>processor_cancelled := True, processor_running := False\<rparr>)"

text \<open>
  Monitor.Start and Monitor.Stop, under the monitor's lock. The goroutine Start spawns
  (collectData) is not part of the call.
\<close>

definition Start :: "start_env \<Rightarrow> Monitor \<Rightarrow> start_error option \<times> Monitor" where
  "Start env m =
     (if running m then (Some AlreadyRunning, m)
      else case loadPrograms env m of
        (Some e, m1) \<Rightarrow> (Some (LoadFailed e), m1)
      | (None, m1) \<Rightarrow>
          (case attachPrograms env m1 of
             (Some e, m2) \<Rightarrow> (Some (AttachFailed e), cleanup m2)
           | (None, m2) \<Rightarrow>
               (case processor_Start m2 of
                  (Some e, m3) \<Rightarrow> (Some ProcessorStartFailed, cleanup m3)
                | (None, m3) \<Rightarrow> (None, m3\<lparr>running := True, startTime := env_now env\<rparr>))))"

definition Stop :: "Monitor \<Rightarrow> start_error option \<times> Monitor" where
  "Stop m =
     (if \<not> running m then (None, m)
      else (None, (cleanup (processor_Stop m))\<lparr>running := False\<rparr>))"

text \<open>
  GetMetrics: a new Metrics object whose Containers is a new array of the same length,
  filled by copy. It returns the pointer to the new object.
\<close>

definition GetMetrics :: "heap \<Rightarrow> Monitor \<Rightarrow> nat \<times> heap" where
  "GetMetrics h m =
     (let src = objects h ! mon_metrics m;
          (dst, h1) = make_slice h (slice_len (Containers src));
          obj = \<lparr>Containers = dst, SystemMemory = SystemMemory src,
                  EBPFMapsCount = EBPFMapsCount src, LastUpdate = LastUpdate src\<rparr>;
          h2 = h1\<lparr>objects := objects h1 @ [obj]\<rparr>;
          h3 = copy_slice h2 dst (Containers src)
      in (length (objects h1), h3))"

text \<open>What a reader sees through a pointer to a Metrics object.\<close>

definition metrics_view :: "heap \<Rightarrow> nat \<Rightarrow> ContainerMetric list \<times> u64 \<times> int \<times> int" where
  "metrics_view h p =
     (let x = objects h ! p
      in (slice_elems h (Containers x), SystemMemory x, EBPFMapsCount x, LastUpdate x))"

text \<open>
  The pointers of a monitor lead into the store: its Metrics object exists, and the
  array of its Containers holds at least as many elements as the slice is long.
\<close>

definition valid_monitor :: "heap \<Rightarrow> Monitor \<Rightarrow> bool" where
  "valid_monitor h m \<longleftrightarrow>
     mon_metrics m < length (objects h) \<and>
     (case Containers (objects h ! mon_metrics m) of
        NilSlice \<Rightarrow> True
      | Slice a n \<Rightarrow> a < length (arrays h) \<and> n \<le> length (arrays h ! a))"

text \<open>
  What a caller can do to the value GetMetrics returned, through the pointer r: assign
  a scalar field, assign an element of r.Containers (a panic when the index is out of
  range), or assign r.Containers itself, to nil or to a shorter prefix of itself.
\<close>

datatype mutation =
    SetSystemMemory u64
  | SetEBPFMapsCount int
  | SetLastUpdate int
  | SetElem nat ContainerMetric
  | SetContainersNil
  | Reslice nat

fun apply_mutation :: "heap \<Rightarrow> nat \<Rightarrow> mutation \<Rightarrow> heap option" where
  "apply_mutation h r (SetSystemMemory v) =
     Some (h\<lparr>objects := (objects h)[r := (objects h ! r)\<lparr>SystemMemory := v\<rparr>]\<rparr>)"
| "apply_mutation h r (SetEBPFMapsCount v) =
     Some (h\<lparr>objects := (objects h)[r := (objects h ! r)\<lparr>EBPFMapsCount := v\<rparr>]\<rparr>)"
| "apply_mutation h r (SetLastUpdate v) =
     Some (h\<lparr>objects := (objects h)[r := (objects h ! r)\<lparr>LastUpdate := v\<rparr>]\<rparr>)"
| "apply_mutation h r (SetElem i v) =
     (case Containers (objects h ! r) of
        NilSlice \<Rightarrow> None
      | Slice a n \<Rightarrow>
          if i < n then Some (h\<lparr>arrays := (arrays h)[a := (arrays h ! a)[i := v]]\<rparr>) else None)"
| "apply_mutation h r SetContainersNil =
     Some (h\<lparr>objects := (objects h)[r := (objects h ! r)\<lparr>Containers := NilSlice\<rparr>]\<rparr>)"
| "apply_mutation h r (Reslice k) =
     (case Containers (objects h ! r) of
        NilSlice \<Rightarrow> if k = 0 then Some h else None
      | Slice a n \<Rightarrow>
          if k \<le> length (arrays h ! a)
          then Some (h\<lparr>objects := (objects h)[r := (objects h ! r)\<lparr>Containers := Slice a k\<rparr>]\<rparr>)
          else None)"

text \<open>A run of mutations stops at the first panic; the result is the store left behind.\<close>

fun run_mutations :: "heap \<Rightarrow> nat \<Rightarrow> mutation list \<Rightarrow> heap" where
  "run_mutations h r [] = h"
| "run_mutations h r (mu # mus) =
     (case apply_mutation h r mu of
        None \<Rightarrow> h
      | Some h' \<Rightarrow> run_mutations h' r mus)"

section \<open>Reading the kernel maps (monitor.go)\<close>

text \<open>Printing a number in a base, as the verbs %d and %x of fmt do for unsigned values.\<close>

definition digit_char :: "nat \<Rightarrow> char" where
  "digit_char d = ''0123456789abcdef'' ! d"

function show_base :: "nat \<Rightarrow> nat \<Rightarrow> string" where
  "show_base b n =
     (if b < 2 \<or> n < b then [digit_char n]
      else show_base b (n div b) @ [digit_char (n mod b)])"
  by pat_completeness auto
termination
  by (relation "measure snd") auto

declare show_base.simps [simp del]

text \<open>FlowKey; FlowStats is struct flow_stats as decoded from the map.\<close>

record FlowKey =
  fk_SrcIP :: u32
  fk_DstIP :: u32
  fk_SrcPort :: "16 word"
  fk_DstPort :: "16 word"
  fk_Protocol :: u8
  fk_Pad :: "u8 list"
  fk_CgroupID :: u64

record NetworkMetrics =
  nm_AvgLatency :: real
  nm_TCPRetransmits :: u32
  nm_TotalPackets :: u64
  nm_TotalBytes :: u64

text \<open>The body of the loop of calculateNetworkMetrics, for one entry of the flow table.\<close>

definition flow_step :: "u64 \<Rightarrow> NetworkMetrics \<Rightarrow> FlowKey \<times> flow_stats \<Rightarrow> NetworkMetrics" where
  "flow_step cgroupID metrics kv =
     (let key = fst kv; stats = snd kv in
      if fk_CgroupID key = cgroupID then
        let m1 = metrics\<lparr>nm_TotalPackets := nm_TotalPackets metrics + fs_packets stats,
                   nm_TotalBytes := nm_TotalBytes metrics + fs_bytes stats,
                   nm_TCPRetransmits := nm_TCPRetransmits metrics + fs_tcp_retransmits stats\<rparr>
        in if fs_latency_count stats > 0 then
             let latencyMs = real (unat (fs_latency_sum stats)) / real (unat (fs_latency_count stats))
                               / 1000000
             in if nm_AvgLatency m1 = 0 then m1\<lparr>nm_AvgLatency := latencyMs\<rparr>
                else m1\<lparr>nm_AvgLatency := (nm_AvgLatency m1 + latencyMs) / 2\<rparr>
           else m1
      else metrics)"

text \<open>calculateNetworkMetrics over the entries of flow_stats_map in the order the iterator yields them.\<close>

definition calculateNetworkMetrics :: "u64 \<Rightarrow> (FlowKey \<times> flow_stats) list \<Rightarrow> NetworkMetrics" where
  "calculateNetworkMetrics cgroupID flows =
     foldl (flow_step cgroupID)
       \<lparr>nm_AvgLatency = 0, nm_TCPRetransmits = 0, nm_TotalPackets = 0, nm_TotalBytes = 0\<rparr> flows"

definition calculateMemoryPercent :: "u64 \<Rightarrow> real" where
  "calculateMemoryPercent memoryUsage =
     real (unat memoryUsage) / real (unat (8 * 1024 * 1024 * 1024 :: u64)) * 100"

definition containerStatusToString :: "u32 \<Rightarrow> string" where
  "containerStatusToString status =
     (if status = 0 then ''unknown''
      else if status = 1 then ''created''
      else if status = 2 then ''running''
      else if status = 3 then ''paused''
      else if status = 4 then ''stopped''
      else if status = 5 then ''exited''
      else ''unknown'')"

text \<open>The ContainerMetric readContainerMetrics builds for one entry of container_map.\<close>

definition container_metric_of :: "container_info \<Rightarrow> (FlowKey \<times> flow_stats) list \<Rightarrow> ContainerMetric" where
  "container_metric_of containerInfo flows =
     (let networkMetrics = calculateNetworkMetrics (ci_cgroup_id containerInfo) flows
      in \<lparr>cm_ID = show_base 16 (unat (ci_cgroup_id containerInfo)),
          cm_Name = map (\<lambda>b. char_of (unat b)) (ci_comm containerInfo),
          cm_PID = ci_pid containerInfo,
          cm_CPUPercent = real (unat (ci_cpu_usage containerInfo)) / 10,
          cm_MemoryPercent = calculateMemoryPercent (ci_memory_usage containerInfo),
          cm_MemoryUsage = ci_memory_usage containerInfo,
          cm_NetworkLatency = nm_AvgLatency networkMetrics,
          cm_TCPRetransmits = nm_TCPRetransmits networkMetrics,
          cm_Status = containerStatusToString (ci_status containerInfo),
          cm_StartTime = sint (ci_start_time containerInfo)\<rparr>)"

text \<open>
  readContainerMetrics, given the two maps of the collection (None when the collection
  has no map of that name), and whether the iterator ends with an error.
\<close>

definition readContainerMetrics ::
  "(u64 \<times> container_info) list option \<Rightarrow> (FlowKey \<times> flow_stats) list option \<Rightarrow> bool
     \<Rightarrow> string + ContainerMetric list" where
  "readContainerMetrics containerMap flowStatsMap iter_err =
     (case containerMap of
        None \<Rightarrow> Inl ''container_map''
      | Some entries \<Rightarrow>
          (case flowStatsMap of
             None \<Rightarrow> Inl ''flow_stats_map''
           | Some flows \<Rightarrow>
               if iter_err then Inl ''iterate''
               else Inr (map (\<lambda>kv. container_metric_of (snd kv) flows) entries)))"

text \<open>
  The mean the specification describes: over the flows of the container whose
  latency_count is positive, the mean of latency_sum / latency_count / 1000000.
\<close>

definition spec_mean_latency :: "u64 \<Rightarrow> (FlowKey \<times> flow_stats) list \<Rightarrow> real" where
  "spec_mean_latency cgroupID flows =
     (let ls = map (\<lambda>kv. real (unat (fs_latency_sum (snd kv))) / real (unat (fs_latency_count (snd kv)))
                            / 1000000)
                 (filter (\<lambda>kv. fk_CgroupID (fst kv) = cgroupID \<and> fs_latency_count (snd kv) > 0) flows)
      in sum_list ls / real (length ls))"

section \<open>The metrics endpoint of the daemon (DaemonServer.metricsHandler)\<close>

definition nl :: string where "nl = [CHR 0x0A]"
definition dq :: string where "dq = [CHR 0x22]"

text \<open>The two HELP texts, as the UTF-8 bytes of the source.\<close>

definition help_containers_total :: string where
  "help_containers_total =
     [CHR 0xE7, CHR 0x9B, CHR 0x91, CHR 0xE6, CHR 0x8E, CHR 0xA7, CHR 0xE7, CHR 0x9A, CHR 0x84,
      CHR 0xE5, CHR 0xAE, CHR 0xB9, CHR 0xE5, CHR 0x99, CHR 0xA8, CHR 0xE6, CHR 0x80, CHR 0xBB,
      CHR 0xE6, CHR 0x95, CHR 0xB0]"

definition help_memory_usage :: string where
  "help_memory_usage =
     [CHR 0xE5, CHR 0x86, CHR 0x85, CHR 0xE5, CHR 0xAD, CHR 0x98, CHR 0xE4, CHR 0xBD, CHR 0xBF,
      CHR 0xE7, CHR 0x94, CHR 0xA8, CHR 0xE9, CHR 0x87, CHR 0x8F]"

text \<open>The three lines written for one container; fmt_f2 is the verb %.2f.\<close>

definition container_lines :: "(real \<Rightarrow> string) \<Rightarrow> ContainerMetric \<Rightarrow> string" where
  "container_lines fmt_f2 container =
     (let labels = ''{container_id='' @ dq @ cm_ID container @ dq @ '',container_name='' @ dq
                     @ cm_Name container @ dq @ ''}''
      in ''microradar_container_cpu_percent'' @ labels @ '' '' @ fmt_f2 (cm_CPUPercent container) @ nl
         @ ''microradar_container_memory_percent'' @ labels @ '' '' @ fmt_f2 (cm_MemoryPercent container) @ nl
         @ ''microradar_container_network_latency_ms'' @ labels @ '' ''
         @ fmt_f2 (cm_NetworkLatency container) @ nl)"

text \<open>The body the handler writes, and the store after its call of GetMetrics.\<close>

definition metricsHandler :: "(real \<Rightarrow> string) \<Rightarrow> heap \<Rightarrow> Monitor \<Rightarrow> string \<times> heap" where
  "metricsHandler fmt_f2 h m =
     (let (r, h') = GetMetrics h m;
          metrics = objects h' ! r;
          containers = slice_elems h' (Containers metrics)
      in (''# HELP microradar_containers_total '' @ help_containers_total @ nl
          @ ''# TYPE microradar_containers_total gauge'' @ nl
          @ ''microradar_containers_total '' @ show_base 10 (length containers) @ nl
          @ ''# HELP microradar_memory_usage_bytes '' @ help_memory_usage @ nl
          @ ''# TYPE microradar_memory_usage_bytes gauge'' @ nl
          @ ''microradar_memory_usage_bytes '' @ show_base 10 (unat (SystemMemory metrics)) @ nl
          @ concat (map (container_lines fmt_f2) containers), h'))"

text \<open>The lines of a body, and the lines that are neither empty nor comments.\<close>

fun split_lines :: "string \<Rightarrow> string \<Rightarrow> string list" where
  "split_lines acc [] = (if acc = [] then [] else [acc])"
| "split_lines acc (c # cs) =
     (if c = CHR 0x0A then acc # split_lines [] cs else split_lines (acc @ [c]) cs)"

definition metric_lines :: "string \<Rightarrow> string list" where
  "metric_lines body = filter (\<lambda>l. l \<noteq> [] \<and> hd l \<noteq> CHR ''#'') (split_lines [] body)"

section \<open>The metrics endpoint runDaemon registers (func metricsHandler)\<close>





section \<open>The event handlers of the aggregator (processor.go)\<close>

record AggregatedContainerMetrics =
  acm_CgroupID :: u64
  acm_ContainerID :: string
  acm_Name :: string
  acm_PID :: u32
  CPUSamples :: "real list"
  CPUAvg :: real
  CPUMax :: real
  CPUMin :: real
  MemorySamples :: "u64 list"
  MemoryAvg :: u64
  MemoryMax :: u64
  MemoryMin :: u64
  acm_Status :: string
  acm_StartTime :: int
  acm_LastUpdate :: int

record AggregatedNetworkMetrics =
  anm_CgroupID :: u64
  anm_TotalPacketsIn :: u64
  anm_TotalPacketsOut :: u64
  anm_TotalBytesIn :: u64
  anm_TotalBytesOut :: u64
  anm_LatencySamples :: "real list"
  anm_LatencyAvg :: real
  anm_LatencyMax :: real
  anm_LatencyMin :: real
  anm_TCPRetransmits :: u32
  anm_TCPConnections :: u32
  anm_LastUpdate :: int

record MetricsAggregator =
  containerMetrics :: "u64 \<rightharpoonup> AggregatedContainerMetrics"
  networkMetrics :: "u64 \<rightharpoonup> AggregatedNetworkMetrics"

text \<open>EventData as user space decodes it.\<close>

record EventData =
  ed_Type :: u32
  ed_Timestamp :: u64
  ed_CgroupID :: u64
  ed_PID :: u32
  ed_Data :: "u8 list"

datatype handler_error = ContainerNotFound u64

text \<open>Each handler takes the reading of time.Now() first.\<close>

definition ContainerStartHandler :: "int \<Rightarrow> EventData \<Rightarrow> MetricsAggregator \<Rightarrow> handler_error option \<times> MetricsAggregator" where
  "ContainerStartHandler now event agg =
     (let container =
            (case containerMetrics agg (ed_CgroupID event) of
               Some c \<Rightarrow> c
             | None \<Rightarrow>
                 \<lparr>acm_CgroupID = ed_CgroupID event,
                  acm_ContainerID = show_base 16 (unat (ed_CgroupID event)),
                  acm_Name = [], acm_PID = ed_PID event,
                  CPUSamples = [], CPUAvg = 0, CPUMax = 0, CPUMin = 0,
                  MemorySamples = [], MemoryAvg = 0, MemoryMax = 0, MemoryMin = 0,
                  acm_Status = ''starting'', acm_StartTime = sint (ed_Timestamp event),
                  acm_LastUpdate = now\<rparr>)
      in (None, agg\<lparr>containerMetrics := (containerMetrics agg)
                 (ed_CgroupID event \<mapsto> container\<lparr>acm_Status := ''running'', acm_LastUpdate := now\<rparr>)\<rparr>))"

definition ContainerStopHandler :: "int \<Rightarrow> EventData \<Rightarrow> MetricsAggregator \<Rightarrow> handler_error option \<times> MetricsAggregator" where
  "ContainerStopHandler now event agg =
     (case containerMetrics agg (ed_CgroupID event) of
        Some container \<Rightarrow>
          (None, agg\<lparr>containerMetrics := (containerMetrics agg)
                   (ed_CgroupID event \<mapsto> container\<lparr>acm_Status := ''stopped'', acm_LastUpdate := now\<rparr>)\<rparr>)
      | None \<Rightarrow> (None, agg))"

definition NetworkPacketHandler :: "int \<Rightarrow> EventData \<Rightarrow> MetricsAggregator \<Rightarrow> handler_error option \<times> MetricsAggregator" where
  "NetworkPacketHandler now event agg =
     (let network =
            (case networkMetrics agg (ed_CgroupID event) of
               Some n \<Rightarrow> n
             | None \<Rightarrow>
                 \<lparr>anm_CgroupID = ed_CgroupID event, anm_TotalPacketsIn = 0, anm_TotalPacketsOut = 0,
                  anm_TotalBytesIn = 0, anm_TotalBytesOut = 0, anm_LatencySamples = [],
                  anm_LatencyAvg = 0, anm_LatencyMax = 0, anm_LatencyMin = 0,
                  anm_TCPRetransmits = 0, anm_TCPConnections = 0, anm_LastUpdate = now\<rparr>)
      in (None, agg\<lparr>networkMetrics := (networkMetrics agg)
                 (ed_CgroupID event \<mapsto> network\<lparr>anm_LastUpdate := now\<rparr>)\<rparr>))"

definition calculateCPUStats :: "AggregatedContainerMetrics \<Rightarrow> AggregatedContainerMetrics" where
  "calculateCPUStats container =
     (case CPUSamples container of
        [] \<Rightarrow> container
      | s0 # rest \<Rightarrow>
          container\<lparr>CPUAvg := foldl (+) 0 (CPUSamples container) / real (length (CPUSamples container)),
            CPUMin := foldl (\<lambda>m sample. if sample < m then sample else m) s0 (CPUSamples container),
            CPUMax := foldl (\<lambda>m sample. if sample > m then sample else m) s0 (CPUSamples container)\<rparr>)"

definition calculateMemoryStats :: "AggregatedContainerMetrics \<Rightarrow> AggregatedContainerMetrics" where
  "calculateMemoryStats container =
     (case MemorySamples container of
        [] \<Rightarrow> container
      | s0 # rest \<Rightarrow>
          container\<lparr>MemoryAvg := foldl (+) 0 (MemorySamples container)
                                  div word_of_nat (length (MemorySamples container)),
            MemoryMin := foldl (\<lambda>m sample. if sample < m then sample else m) s0 (MemorySamples container),
            MemoryMax := foldl (\<lambda>m sample. if sample > m then sample else m) s0 (MemorySamples container)\<rparr>)"

text \<open>What CPUSampleHandler and MemorySampleHandler do to the record they find.\<close>

definition add_cpu_sample :: "int \<Rightarrow> AggregatedContainerMetrics \<Rightarrow> AggregatedContainerMetrics" where
  "add_cpu_sample now container =
     (let cpuUsage = 50;
          appended = CPUSamples container @ [cpuUsage];
          kept = (if length appended > 100 then tl appended else appended)
      in (calculateCPUStats (container\<lparr>CPUSamples := kept\<rparr>))\<lparr>acm_LastUpdate := now\<rparr>)"

definition add_memory_sample :: "int \<Rightarrow> AggregatedContainerMetrics \<Rightarrow> AggregatedContainerMetrics" where
  "add_memory_sample now container =
     (let memoryUsage = 512 * 1024 * 1024;
          appended = MemorySamples container @ [memoryUsage];
          kept = (if length appended > 100 then tl appended else appended)
      in (calculateMemoryStats (container\<lparr>MemorySamples := kept\<rparr>))\<lparr>acm_LastUpdate := now\<rparr>)"

definition CPUSampleHandler :: "int \<Rightarrow> EventData \<Rightarrow> MetricsAggregator \<Rightarrow> handler_error option \<times> MetricsAggregator" where
  "CPUSampleHandler now event agg =
     (case containerMetrics agg (ed_CgroupID event) of
        None \<Rightarrow> (Some (ContainerNotFound (ed_CgroupID event)), agg)
      | Some container \<Rightarrow>
          (None, agg\<lparr>containerMetrics := (containerMetrics agg)
                   (ed_CgroupID event \<mapsto> add_cpu_sample now container)\<rparr>))"

definition MemorySampleHandler :: "int \<Rightarrow> EventData \<Rightarrow> MetricsAggregator \<Rightarrow> handler_error option \<times> MetricsAggregator" where
  "MemorySampleHandler now event agg =
     (case containerMetrics agg (ed_CgroupID event) of
        None \<Rightarrow> (Some (ContainerNotFound (ed_CgroupID event)), agg)
      | Some container \<Rightarrow>
          (None, agg\<lparr>containerMetrics := (containerMetrics agg)
                   (ed_CgroupID event \<mapsto> add_memory_sample now container)\<rparr>))"

text \<open>
  An event given to the handler registerEventHandlers enters for its type (event types
  1 to 5); an event of another type has no handler.
\<close>

definition dispatch_event :: "int \<Rightarrow> EventData \<Rightarrow> MetricsAggregator \<Rightarrow> handler_error option \<times> MetricsAggregator" where
  "dispatch_event now event agg =
     (if ed_Type event = 1 then ContainerStartHandler now event agg
      else if ed_Type event = 2 then ContainerStopHandler now event agg
      else if ed_Type event = 3 then NetworkPacketHandler now event agg
      else if ed_Type event = 4 then CPUSampleHandler now event agg
      else if ed_Type event = 5 then MemorySampleHandler now event agg
      else (None, agg))"

fun handle_events :: "(int \<times> EventData) list \<Rightarrow> MetricsAggregator \<Rightarrow> MetricsAggregator" where
  "handle_events [] agg = agg"
| "handle_events ((now, event) # rest) agg = handle_events rest (snd (dispatch_event now event agg))"

definition new_aggregator :: MetricsAggregator where
  "new_aggregator = \<lparr>containerMetrics = Map.empty, networkMetrics = Map.empty\<rparr>"

text \<open>Every record of the aggregator holds at most 100 samples of each kind.\<close>

definition samples_bounded :: "MetricsAggregator \<Rightarrow> bool" where
  "samples_bounded agg \<longleftrightarrow>
     (\<forall>container \<in> ran (containerMetrics agg).
        length (CPUSamples container) \<le> 100 \<and> length (MemorySamples container) \<le> 100)"

section \<open>Object pools (memory.go)\<close>

text \<open>
  A value of type interface{} is None (nil) or Some object. A buffered channel is the
  list of the values it holds, oldest first, and its capacity.
\<close>

record 'a chan =
  chan_buf :: "'a option list"
  chan_cap :: nat

text \<open>
  ObjectPool. reset works on the object in place; it is a function from the object to
  the object it leaves. The three counters are int64.
\<close>

record 'a ObjectPool =
  pool_name :: string
  pool_objects :: "'a chan"
  pool_factory :: "unit \<Rightarrow> 'a option"
  pool_reset :: "('a \<Rightarrow> 'a) option"
  pool_maxSize :: int
  pool_created :: u64
  pool_hits :: u64
  pool_misses :: u64

record 'a MemoryManager =
  mm_maxMemory :: u64
  mm_currentMemory :: u64
  mm_pools :: "string \<rightharpoonup> 'a ObjectPool"

text \<open>CreatePool; make(chan interface{}, maxSize) panics on a negative size (None).\<close>

definition CreatePool ::
  "'a MemoryManager \<Rightarrow> string \<Rightarrow> int \<Rightarrow> (unit \<Rightarrow> 'a option) \<Rightarrow> ('a \<Rightarrow> 'a) option
     \<Rightarrow> 'a MemoryManager option" where
  "CreatePool mm name maxSize factory reset =
     (if maxSize < 0 then None
      else
        let pool = \<lparr>pool_name = name, pool_objects = \<lparr>chan_buf = [], chan_cap = nat maxSize\<rparr>,
                     pool_factory = factory, pool_reset = reset, pool_maxSize = maxSize,
                     pool_created = 0, pool_hits = 0, pool_misses = 0\<rparr>
        in Some (mm\<lparr>mm_pools := (mm_pools mm)(name \<mapsto> pool)\<rparr>))"

text \<open>ObjectPool.Get: the value returned and the pool after the call.\<close>

definition ObjectPool_Get :: "'a ObjectPool \<Rightarrow> 'a option \<times> 'a ObjectPool" where
  "ObjectPool_Get p =
     (case chan_buf (pool_objects p) of
        obj # rest \<Rightarrow>
          (obj, p\<lparr>pool_objects := (pool_objects p)\<lparr>chan_buf := rest\<rparr>, pool_hits := pool_hits p + 1\<rparr>)
      | [] \<Rightarrow>
          (pool_factory p (), p\<lparr>pool_misses := pool_misses p + 1, pool_created := pool_created p + 1\<rparr>))"

text \<open>ObjectPool.Put: the pool after the call, and the object as the call leaves it.\<close>

definition ObjectPool_Put :: "'a ObjectPool \<Rightarrow> 'a option \<Rightarrow> 'a ObjectPool \<times> 'a option" where
  "ObjectPool_Put p obj =
     (case obj of
        None \<Rightarrow> (p, None)
      | Some x \<Rightarrow>
          let x' = (case pool_reset p of None \<Rightarrow> x | Some reset \<Rightarrow> reset x);
              c = pool_objects p
          in if length (chan_buf c) < chan_cap c
             then (p\<lparr>pool_objects := c\<lparr>chan_buf := chan_buf c @ [Some x']\<rparr>\<rparr>, Some x')
             else (p, Some x'))"

definition GetFromPool :: "'a MemoryManager \<Rightarrow> string \<Rightarrow> 'a option \<times> 'a MemoryManager" where
  "GetFromPool mm poolName =
     (case mm_pools mm poolName of
        None \<Rightarrow> (None, mm)
      | Some pool \<Rightarrow>
          let (obj, pool') = ObjectPool_Get pool
          in (obj, mm\<lparr>mm_pools := (mm_pools mm)(poolName \<mapsto> pool')\<rparr>))"

definition PutToPool :: "'a MemoryManager \<Rightarrow> string \<Rightarrow> 'a option \<Rightarrow> 'a MemoryManager" where
  "PutToPool mm poolName obj =
     (case mm_pools mm poolName of
        None \<Rightarrow> mm
      | Some pool \<Rightarrow> mm\<lparr>mm_pools := (mm_pools mm)(poolName \<mapsto> fst (ObjectPool_Put pool obj))\<rparr>)"

text \<open>A sequence of calls on one pool.\<close>

datatype 'a pool_op = OpGet | OpPut "'a option"

fun pool_step :: "'a ObjectPool \<Rightarrow> 'a pool_op \<Rightarrow> 'a ObjectPool" where
  "pool_step p OpGet = snd (ObjectPool_Get p)"
| "pool_step p (OpPut obj) = fst (ObjectPool_Put p obj)"

definition run_pool_ops :: "'a pool_op list \<Rightarrow> 'a ObjectPool \<Rightarrow> 'a ObjectPool" where
  "run_pool_ops ops p = foldl pool_step p ops"

definition pool_size :: "'a ObjectPool \<Rightarrow> nat" where
  "pool_size p = length (chan_buf (pool_objects p))"

section \<open>Configuration (config.go)\<close>

text \<open>time.Duration is a number of nanoseconds.\<close>

definition Millisecond :: int where "Millisecond = 1000000"
definition Second :: int where "Second = 1000000000"

record TargetConfig =
  tc_Name :: string
  tc_Runtime :: string
  tc_Metrics :: "string list"
  tc_SamplingRate :: int

record AlertThresholds =
  at_CPU :: real
  at_Memory :: real
  at_NetworkLatency :: real

record MonitoringConfig =
  Targets :: "TargetConfig list"
  Thresholds :: AlertThresholds

record DisplayConfig =
  RefreshRate :: int
  Theme :: string

record SystemConfig =
  MaxContainers :: int
  MemoryLimit :: string
  LogLevel :: string

record Config =
  Monitoring :: MonitoringConfig
  Display :: DisplayConfig
  System :: SystemConfig

datatype config_error =
    ReadFailed
  | ParseFailed
  | NoTargets
  | TargetNameEmpty nat
  | TargetRuntimeEmpty nat
  | TargetRuntimeUnsupported nat string
  | SamplingRateTooSmall nat
  | CPUThresholdOutOfRange
  | MemoryThresholdOutOfRange
  | LatencyThresholdNotPositive
  | ValidationFailed config_error

text \<open>The loop of Validate over the targets, from index i on.\<close>

fun validate_targets :: "nat \<Rightarrow> TargetConfig list \<Rightarrow> config_error option" where
  "validate_targets i [] = None"
| "validate_targets i (target # rest) =
     (if tc_Name target = [] then Some (TargetNameEmpty i)
      else if tc_Runtime target = [] then Some (TargetRuntimeEmpty i)
      else if tc_Runtime target \<notin> {''docker'', ''containerd'', ''cri-o''}
        then Some (TargetRuntimeUnsupported i (tc_Runtime target))
      else if tc_SamplingRate target < Second then Some (SamplingRateTooSmall i)
      else validate_targets (Suc i) rest)"

definition Validate :: "Config \<Rightarrow> config_error option" where
  "Validate c =
     (if Targets (Monitoring c) = [] then Some NoTargets
      else case validate_targets 0 (Targets (Monitoring c)) of
        Some e \<Rightarrow> Some e
      | None \<Rightarrow>
          let t = Thresholds (Monitoring c) in
          if at_CPU t \<le> 0 \<or> at_CPU t > 100 then Some CPUThresholdOutOfRange
          else if at_Memory t \<le> 0 \<or> at_Memory t > 100 then Some MemoryThresholdOutOfRange
          else if at_NetworkLatency t \<le> 0 then Some LatencyThresholdNotPositive
          else None)"

definition target_defaults :: "TargetConfig \<Rightarrow> TargetConfig" where
  "target_defaults t =
     (let t1 = (if tc_SamplingRate t = 0 then t\<lparr>tc_SamplingRate := 2 * Second\<rparr> else t)
      in if tc_Metrics t1 = []
         then t1\<lparr>tc_Metrics := [''cpu'', ''memory'', ''network_latency'', ''tcp_retransmits'']\<rparr>
         else t1)"

definition SetDefaults :: "Config \<Rightarrow> Config" where
  "SetDefaults c =
     (let d = Display c;
          d1 = (if RefreshRate d = 0 then d\<lparr>RefreshRate := 100 * Millisecond\<rparr> else d);
          d2 = (if Theme d1 = [] then d1\<lparr>Theme := ''default''\<rparr> else d1);
          s = System c;
          s1 = (if MaxContainers s = 0 then s\<lparr>MaxContainers := 1000\<rparr> else s);
          s2 = (if MemoryLimit s1 = [] then s1\<lparr>MemoryLimit := ''48MB''\<rparr> else s1);
          s3 = (if LogLevel s2 = [] then s2\<lparr>LogLevel := ''info''\<rparr> else s2);
          t = Thresholds (Monitoring c);
          t1 = (if at_CPU t = 0 then t\<lparr>at_CPU := 70\<rparr> else t);
          t2 = (if at_Memory t1 = 0 then t1\<lparr>at_Memory := 80\<rparr> else t1);
          t3 = (if at_NetworkLatency t2 = 0 then t2\<lparr>at_NetworkLatency := 10\<rparr> else t2)
      in \<lparr>Monitoring = \<lparr>Targets = map target_defaults (Targets (Monitoring c)), Thresholds = t3\<rparr>,
          Display = d2, System = s3\<rparr>)"

text \<open>
  What Load finds: a file it cannot read, bytes yaml.Unmarshal rejects, or the decoded
  structure, in which a key the file omits holds the zero value of its type.
\<close>

datatype config_file = Unreadable | Unparseable | Decoded Config

definition Load :: "config_file \<Rightarrow> config_error + Config" where
  "Load file =
     (case file of
        Unreadable \<Rightarrow> Inl ReadFailed
      | Unparseable \<Rightarrow> Inl ParseFailed
      | Decoded config \<Rightarrow>
          (case Validate config of
             Some e \<Rightarrow> Inl (ValidationFailed e)
           | None \<Rightarrow> Inr (SetDefaults config)))"

text \<open>
  A file with one docker target named web and nothing else: no sampling_rate, no
  alert_thresholds, no display and no system section. The second file adds
  sampling_rate: 2s to the target.
\<close>

definition minimal_config :: Config where
  "minimal_config =
     \<lparr>Monitoring = \<lparr>Targets = [\<lparr>tc_Name = ''web'', tc_Runtime = ''docker'', tc_Metrics = [],
                                  tc_SamplingRate = 0\<rparr>],
                     Thresholds = \<lparr>at_CPU = 0, at_Memory = 0, at_NetworkLatency = 0\<rparr>\<rparr>,
      Display = \<lparr>RefreshRate = 0, Theme = []\<rparr>,
      System = \<lparr>MaxContainers = 0, MemoryLimit = [], LogLevel = []\<rparr>\<rparr>"

definition minimal_config_with_rate :: Config where
  "minimal_config_with_rate =
     minimal_config\<lparr>Monitoring := (Monitoring minimal_config)
       \<lparr>Targets := [\<lparr>tc_Name = ''web'', tc_Runtime = ''docker'', tc_Metrics = [],
                     tc_SamplingRate = 2 * Second\<rparr>]\<rparr>\<rparr>"

section \<open>The runtime resolver (runtime detector)\<close>

text \<open>strings.HasPrefix, strings.Index (None for -1) and strings.Contains.\<close>

fun HasPrefix :: "string \<Rightarrow> string \<Rightarrow> bool" where
  "HasPrefix s [] = True"
| "HasPrefix [] (p # ps) = False"
| "HasPrefix (c # cs) (p # ps) = (c = p \<and> HasPrefix cs ps)"

fun Index :: "string \<Rightarrow> string \<Rightarrow> nat option" where
  "Index [] substr = (if substr = [] then Some 0 else None)"
| "Index (c # cs) substr =
     (if HasPrefix (c # cs) substr then Some 0 else map_option Suc (Index cs substr))"

definition Contains :: "string \<Rightarrow> string \<Rightarrow> bool" where
  "Contains s substr \<longleftrightarrow> Index s substr \<noteq> None"

text \<open>
  strings.Split for a separator that is not empty: the pieces between the occurrences
  of the separator, found from the left. acc is the piece being read.
\<close>

function split_from :: "string \<Rightarrow> string \<Rightarrow> string \<Rightarrow> string list" where
  "split_from sep acc [] = [acc]"
| "split_from sep acc (c # cs) =
     (if sep \<noteq> [] \<and> HasPrefix (c # cs) sep
      then acc # split_from sep [] (drop (length sep) (c # cs))
      else split_from sep (acc @ [c]) cs)"
  by pat_completeness auto
termination
  by (relation "measure (\<lambda>(sep, acc, s). length s)") auto

text \<open>With an empty separator Split cuts after each character (of an ASCII string).\<close>

definition Split :: "string \<Rightarrow> string \<Rightarrow> string list" where
  "Split s sep = (if sep = [] then map (\<lambda>c. [c]) s else split_from sep [] s)"

text \<open>
  strings.TrimSpace on a string of ASCII characters: tab, line feed, vertical tab, form
  feed, carriage return and space are removed from both ends.
\<close>

definition is_space :: "char \<Rightarrow> bool" where
  "is_space c \<longleftrightarrow> c = CHR 0x09 \<or> c = CHR 0x0A \<or> c = CHR 0x0B \<or> c = CHR 0x0C \<or> c = CHR 0x0D \<or> c = CHR 0x20"

definition TrimSpace :: "string \<Rightarrow> string" where
  "TrimSpace s = rev (dropWhile is_space (rev (dropWhile is_space s)))"

definition ascii :: "string \<Rightarrow> bool" where
  "ascii s \<longleftrightarrow> list_all (\<lambda>c. of_char c < (128 :: nat)) s"

record ContainerRuntimeInfo =
  cri_ID :: string
  cri_Name :: string
  cri_Image :: string
  cri_Status :: string
  cri_Runtime :: string
  cri_CgroupPath :: string
  cri_CgroupID :: u64
  cri_PID :: int
  cri_Labels :: "(string \<times> string) list option"
  cri_CreatedAt :: int
  cri_StartedAt :: int

definition isContainerCgroup :: "string \<Rightarrow> string \<Rightarrow> bool" where
  "isContainerCgroup line runtime =
     (if runtime = ''docker'' then Contains line ''/docker/'' \<or> Contains line ''/docker-''
      else if runtime = ''containerd'' then Contains line ''/containerd/'' \<or> Contains line ''/k8s.io/''
      else if runtime = ''cri-o'' then Contains line ''/crio-'' \<or> Contains line ''/crio/''
      else False)"

definition extractContainerID :: "string \<Rightarrow> string \<Rightarrow> string" where
  "extractContainerID line runtime =
     (if runtime = ''docker'' then
        (let parts = Split line ''/docker/''
         in if length parts > 1 then TrimSpace (parts ! 1) else [])
      else if runtime = ''containerd'' then
        (let parts = Split line ''/containerd/''
         in if length parts > 1 then TrimSpace (parts ! 1) else [])
      else if runtime = ''cri-o'' then
        (let parts = Split line ''/crio-''
         in if length parts > 1 then TrimSpace (parts ! 1) else [])
      else [])"

text \<open>
  parseCgroupFile: lines is what the scanner yields, None when the file cannot be
  opened; now holds the two readings of time.Now() taken for the record, the first for
  CreatedAt and the second for StartedAt.
\<close>

fun scan_lines :: "int \<times> int \<Rightarrow> string list \<Rightarrow> string \<Rightarrow> int \<Rightarrow> ContainerRuntimeInfo option" where
  "scan_lines now [] runtime pid = None"
| "scan_lines now (line # rest) runtime pid =
     (if isContainerCgroup line runtime \<and> extractContainerID line runtime \<noteq> []
      then Some \<lparr>cri_ID = extractContainerID line runtime, cri_Name = [], cri_Image = [],
                 cri_Status = ''running'', cri_Runtime = runtime, cri_CgroupPath = line,
                 cri_CgroupID = 0, cri_PID = pid, cri_Labels = None, cri_CreatedAt = fst now,
                 cri_StartedAt = snd now\<rparr>
      else scan_lines now rest runtime pid)"

definition parseCgroupFile :: "int \<times> int \<Rightarrow> string list option \<Rightarrow> string \<Rightarrow> int \<Rightarrow> ContainerRuntimeInfo option" where
  "parseCgroupFile now file runtime pid =
     (case file of None \<Rightarrow> None | Some lines \<Rightarrow> scan_lines now lines runtime pid)"

text \<open>
  An entry of /proc: whether it is a directory, the pid its name scans as (None when
  Sscanf fails), and the lines of its cgroup file. clock gives the two readings of
  time.Now() for the entry at each position.
\<close>

record proc_entry =
  pe_is_dir :: bool
  pe_pid :: "int option"
  pe_cgroup :: "string list option"

definition parseContainersFromCgroup ::
  "(nat \<Rightarrow> int \<times> int) \<Rightarrow> proc_entry list option \<Rightarrow> string \<Rightarrow> ContainerRuntimeInfo list" where
  "parseContainersFromCgroup clock proc runtime =
     (case proc of
        None \<Rightarrow> []
      | Some entries \<Rightarrow>
          concat (map (\<lambda>ie.
            if \<not> pe_is_dir (snd ie) then []
            else case pe_pid (snd ie) of
              None \<Rightarrow> []
            | Some pid \<Rightarrow>
                (case parseCgroupFile (clock (fst ie)) (pe_cgroup (snd ie)) runtime pid of
                   None \<Rightarrow> []
                 | Some container \<Rightarrow> [container])) (enumerate 0 entries)))"

definition GetContainers ::
  "(nat \<Rightarrow> int \<times> int) \<Rightarrow> proc_entry list option \<Rightarrow> string \<Rightarrow> string + ContainerRuntimeInfo list" where
  "GetContainers clock proc runtime =
     (if runtime = ''docker'' then Inr (parseContainersFromCgroup clock proc ''docker'')
      else if runtime = ''containerd'' then Inr (parseContainersFromCgroup clock proc ''containerd'')
      else if runtime = ''cri-o'' then Inr (parseContainersFromCgroup clock proc ''crio'')
      else Inl runtime)"

text \<open>
  The text after the first occurrence of a signature, up to the next occurrence of the
  signature or the end of the line.
\<close>

definition segment_after :: "string \<Rightarrow> string \<Rightarrow> string option" where
  "segment_after line sig =
     (case Index line sig of
        None \<Rightarrow> None
      | Some i \<Rightarrow>
          let rest = drop (i + length sig) line
          in Some (case Index rest sig of None \<Rightarrow> rest | Some j \<Rightarrow> take j rest))"

section \<open>Invariants\<close>

text \<open>A record of the aggregator within the bound of 100 samples of each kind.\<close>

definition record_bounded :: "AggregatedContainerMetrics \<Rightarrow> bool" where
  "record_bounded c \<longleftrightarrow> length (CPUSamples c) \<le> 100 \<and> length (MemorySamples c) \<le> 100"

text \<open>
  The frame a caller of GetMetrics works in: g is a store reached from h by the call
  and by writes through the returned pointer r. Such a store has one object and one
  array more than h, agrees with h below the new addresses, and the slice of the object
  at r is nil or lies in the new array.
\<close>

definition frame :: "heap \<Rightarrow> nat \<Rightarrow> heap \<Rightarrow> bool" where
  "frame h r g \<longleftrightarrow>
     r = length (objects h) \<and>
     length (objects g) = Suc (length (objects h)) \<and>
     length (arrays g) = Suc (length (arrays h)) \<and>
     take (length (objects h)) (objects g) = objects h \<and>
     take (length (arrays h)) (arrays g) = arrays h \<and>
     (case Containers (objects g ! r) of
        NilSlice \<Rightarrow> True
      | Slice a n \<Rightarrow> a = length (arrays h))"

text \<open>
  A pool in working order: the channel holds no more than its capacity, which is the
  pool's maxSize, and holds no nil.
\<close>

definition pool_ok :: "'a ObjectPool \<Rightarrow> bool" where
  "pool_ok p \<longleftrightarrow>
     length (chan_buf (pool_objects p)) \<le> chan_cap (pool_objects p) \<and>
     chan_cap (pool_objects p) = nat (pool_maxSize p) \<and>
     0 \<le> pool_maxSize p \<and>
     None \<notin> set (chan_buf (pool_objects p))"

section \<open>Sample inputs\<close>

text \<open>
  A container table with the single container of cgroup 5 whose primary pid is 7, and
  the exit of pid 7 (thread 1) in that cgroup, once while the ring buffer is full and
  once while it has room.
\<close>

definition sample_container :: container_info where
  "sample_container = \<lparr>ci_cgroup_id = 5, ci_pid = 7, ci_ppid = 7, ci_container_id = replicate 64 0,
     ci_comm = replicate 16 0, ci_start_time = 100, ci_cpu_usage = 0, ci_memory_usage = 0,
     ci_status = CONTAINER_STATUS_RUNNING\<rparr>"

definition sample_kernel :: kernel where
  "sample_kernel = \<lparr>container_map = [(5, sample_container)], pid_to_cgroup_map = [(7, 5)],
     events = [], stats_map = replicate 10 0\<rparr>"

definition exit_ctx :: "bool \<Rightarrow> probe_ctx" where
  "exit_ctx room = \<lparr>has_task = True, cur_cgroup = 5, pid_tgid = 0x700000001, ktime = 200,
     ktime2 = 201, cur_comm = replicate 16 0, stack_after = [], ringbuf_room = room,
     evict_container = None, evict_pid = None\<rparr>"

definition root_ctx :: probe_ctx where
  "root_ctx = (exit_ctx True)\<lparr>cur_cgroup := 1\<rparr>"

text \<open>A collection that loads and attaches, a running monitor and a stopped one.\<close>

definition sample_env :: start_env where
  "sample_env = \<lparr>env_spec = \<lparr>spec_maps = [''container_map''], spec_programs = []\<rparr>,
     env_new_collection = Inr \<lparr>coll_maps = [''container_map''], coll_programs = []\<rparr>,
     env_attach_fails = (\<lambda>hook. False), env_now = 1000\<rparr>"

definition running_monitor :: Monitor where
  "running_monitor = \<lparr>mon_spec = Some \<lparr>spec_maps = [''container_map''], spec_programs = []\<rparr>,
     mon_coll = Some \<lparr>coll_maps = [''container_map''], coll_programs = []\<rparr>, mon_links = [],
     running = True, startTime = 900, mon_metrics = 0, processor_running = True,
     processor_cancelled = False\<rparr>"

definition stopped_monitor :: Monitor where
  "stopped_monitor = \<lparr>mon_spec = None, mon_coll = None, mon_links = [], running = False,
     startTime = 0, mon_metrics = 0, processor_running = False, processor_cancelled = False\<rparr>"

text \<open>
  A record that holds 100 samples of each kind, in an aggregator of its own, and an
  event of its cgroup with the given type.
\<close>

definition full_record :: AggregatedContainerMetrics where
  "full_record = \<lparr>acm_CgroupID = 5, acm_ContainerID = ''5'', acm_Name = [], acm_PID = 7,
     CPUSamples = 10 # replicate 99 20, CPUAvg = 0, CPUMax = 0, CPUMin = 0,
     MemorySamples = 1 # replicate 99 2, MemoryAvg = 0, MemoryMax = 0, MemoryMin = 0,
     acm_Status = ''running'', acm_StartTime = 0, acm_LastUpdate = 0\<rparr>"

definition full_aggregator :: MetricsAggregator where
  "full_aggregator = \<lparr>containerMetrics = [5 \<mapsto> full_record], networkMetrics = Map.empty\<rparr>"

definition sample_event :: "u32 \<Rightarrow> EventData" where
  "sample_event t = \<lparr>ed_Type = t, ed_Timestamp = 0, ed_CgroupID = 5, ed_PID = 7, ed_Data = []\<rparr>"

text \<open>A store in which the monitor's Metrics object (address 0) holds two containers.\<close>

definition sample_metric :: "string \<Rightarrow> ContainerMetric" where
  "sample_metric name = zero_ContainerMetric\<lparr>cm_ID := name, cm_Name := name, cm_Status := ''running''\<rparr>"

definition sample_heap :: heap where
  "sample_heap = \<lparr>arrays = [[sample_metric ''a'', sample_metric ''b'']],
     objects = [\<lparr>Containers = Slice 0 2, SystemMemory = 42, EBPFMapsCount = 9, LastUpdate = 77\<rparr>]\<rparr>"

text \<open>The store NewMonitor builds in an empty store; its monitor is stopped_monitor.\<close>

definition new_heap :: heap where
  "new_heap = \<lparr>arrays = [[]],
     objects = [\<lparr>Containers = Slice 0 0, SystemMemory = 0, EBPFMapsCount = 0, LastUpdate = 0\<rparr>]\<rparr>"

text \<open>A manager without pools.\<close>

definition sample_manager :: "nat MemoryManager" where
  "sample_manager = \<lparr>mm_maxMemory = 50331648, mm_currentMemory = 0, mm_pools = Map.empty\<rparr>"

text \<open>
  Three flows of the container of cgroup 5 with one latency measurement each, of
  1 ms, 1 ms and 4 ms, told apart by their source ports; and a single flow that
  measured 5 ms once.
\<close>

definition sample_flow :: "16 word \<Rightarrow> u64 \<Rightarrow> FlowKey \<times> flow_stats" where
  "sample_flow port latency_sum =
     (\<lparr>fk_SrcIP = 0x0A000001, fk_DstIP = 0x0A000002, fk_SrcPort = port, fk_DstPort = 80,
       fk_Protocol = 6, fk_Pad = [0, 0, 0], fk_CgroupID = 5\<rparr>,
      \<lparr>fs_packets = 1, fs_bytes = 60, fs_latency_sum = latency_sum, fs_latency_count = 1,
       fs_last_seen = 0, fs_tcp_retransmits = 0, fs_flags = 2\<rparr>)"

definition three_flows :: "(FlowKey \<times> flow_stats) list" where
  "three_flows = [sample_flow 5000 1000000, sample_flow 5001 1000000, sample_flow 5002 4000000]"

section \<open>Properties of the kernel probes\<close>

lemma keys_alist_update: "fst ` set (AList.update k v m) = insert k (fst ` set m)"
  by (induction m) auto

lemma keys_alist_delete: "fst ` set (AList.delete k m) = fst ` set m - {k}"
  by (induction m) auto

lemma del_upd: "AList.delete x (AList.update x v m) = AList.delete x m"
  by (induction m) auto

lemma map_of_Some_key: "map_of m k = Some v \<Longrightarrow> k \<in> fst ` set m"
  by (force dest: map_of_SomeD)

lemma in_keys_drop_nth: "x \<in> fst ` set (take i m @ drop (Suc i) m) \<Longrightarrow> x \<in> fst ` set m"
  using set_take_subset [of i m] set_drop_subset [of "Suc i" m] by auto

lemma in_keys_lru_update:
  assumes "x \<in> fst ` set (lru_update cap victim k v m)"
  shows "x = k \<or> x \<in> fst ` set m"
proof (cases "map_of m k \<noteq> None")
  case True
  with assms have "x \<in> fst ` set (AList.update k v m)" by (simp add: lru_update_def)
  then show ?thesis by (simp add: keys_alist_update)
next
  case absent: False
  show ?thesis
  proof (cases victim)
    case None
    with absent assms have "x = k \<or> x \<in> fst ` set m \<or> x \<in> fst ` set (tl m)"
      by (auto simp: lru_update_def split: if_splits)
    then show ?thesis using list.set_sel(2) [of m] by (cases m) auto
  next
    case (Some i)
    with absent assms
    have "x = k \<or> x \<in> fst ` set (take (i mod length m) m @ drop (Suc (i mod length m)) m)"
      by (auto simp: lru_update_def)
    then show ?thesis using in_keys_drop_nth [of x "i mod length m" m] by blast
  qed
qed

lemma stats_container_map [simp]: "container_map (update_stats i k) = container_map k"
  by (simp add: update_stats_def)

lemma stats_pid_map [simp]: "pid_to_cgroup_map (update_stats i k) = pid_to_cgroup_map k"
  by (simp add: update_stats_def)

lemma stats_events [simp]: "events (update_stats i k) = events k"
  by (simp add: update_stats_def)

lemma send_container_map [simp]: "container_map (send_event ctx e k) = container_map k"
  by (simp add: send_event_def)

lemma send_pid_map [simp]: "pid_to_cgroup_map (send_event ctx e k) = pid_to_cgroup_map k"
  by (simp add: send_event_def)

lemma send_events: "events (send_event ctx e k) = (if ringbuf_room ctx then events k @ [e] else events k)"
  by (simp add: send_event_def)

lemma start_keys:
  assumes "x \<in> container_keys (trace_container_start ctx k)"
  shows "x \<in> container_keys k \<or> is_container_process x"
proof (cases "is_container_process (get_current_cgroup_id ctx)")
  case False
  with assms show ?thesis by (simp add: trace_container_start_def Let_def)
next
  case True
  show ?thesis
  proof (cases "map_of (container_map k) (get_current_cgroup_id ctx)")
    case (Some a)
    with True assms show ?thesis
      by (simp add: trace_container_start_def Let_def container_keys_def)
  next
    case None
    with True assms obtain v where
      "x \<in> fst ` set (lru_update MAX_CONTAINERS (evict_container ctx) (get_current_cgroup_id ctx) v (container_map k))"
      by (auto simp: trace_container_start_def Let_def container_keys_def)
    from in_keys_lru_update [OF this] True show ?thesis
      by (auto simp: container_keys_def)
  qed
qed

lemma stop_keys:
  assumes "x \<in> container_keys (trace_container_stop ctx k)"
  shows "x \<in> container_keys k"
  using assms
  by (auto simp: trace_container_stop_def container_keys_def Let_def keys_alist_update
      keys_alist_delete split: option.splits if_splits)

lemma attach_keys:
  assumes "x \<in> container_keys (kprobe_cgroup_attach ctx k)"
  shows "x \<in> container_keys k"
  using assms
  by (auto simp: kprobe_cgroup_attach_def container_keys_def Let_def keys_alist_update
      split: option.splits if_splits dest: map_of_Some_key)

lemma exec_keys:
  assumes "x \<in> container_keys (trace_process_exec ctx k)"
  shows "x \<in> container_keys k"
  using assms
  by (auto simp: trace_process_exec_def container_keys_def Let_def keys_alist_update
      split: option.splits if_splits dest: map_of_Some_key)

lemma run_probe_keys:
  "x \<in> container_keys (run_probe p ctx k) \<Longrightarrow> x \<in> container_keys k \<or> is_container_process x"
  by (cases p) (auto dest: start_keys stop_keys attach_keys exec_keys)

lemma run_probes_keys:
  "x \<in> container_keys (run_probes ps k) \<Longrightarrow> x \<in> container_keys k \<or> is_container_process x"
proof (induction ps arbitrary: k)
  case Nil
  then show ?case by simp
next
  case (Cons a ps)
  obtain p ctx where a: "a = (p, ctx)" by (cases a)
  from Cons.prems have "x \<in> container_keys (run_probes ps (run_probe p ctx k))" by (simp add: a)
  from Cons.IH [OF this] show ?case using run_probe_keys [of x p ctx k] by blast
qed

lemma run_probe_root:
  "\<not> is_container_process (get_current_cgroup_id ctx) \<Longrightarrow> run_probe p ctx k = k"
  by (cases p)
    (simp_all add: trace_container_start_def trace_container_stop_def kprobe_cgroup_attach_def
      trace_process_exec_def Let_def)

text \<open>
  C1. When the current cgroup id is 0 or 1, each of the four probes (clone entry, exit
  entry, cgroup-attach kprobe, process-exec tracepoint) returns with every map and the
  ring buffer as it found them; and whatever probes have run since the maps were
  created, neither 0 nor 1 is a key of the container table.
\<close>

theorem root_cgroup_ignored:
  "(get_current_cgroup_id ctx = 0 \<or> get_current_cgroup_id ctx = 1 \<longrightarrow>
      trace_container_start ctx k = k \<and> trace_container_stop ctx k = k \<and>
      kprobe_cgroup_attach ctx k = k \<and> trace_process_exec ctx k = k) \<and>
   0 \<notin> container_keys (run_probes ps init_kernel) \<and>
   1 \<notin> container_keys (run_probes ps init_kernel)"
proof -
  have init: "container_keys init_kernel = {}"
    by (simp add: container_keys_def init_kernel_def)
  have a: "0 \<notin> container_keys (run_probes ps init_kernel)"
    using run_probes_keys [of 0 ps init_kernel] init by (auto simp: is_container_process_def)
  have b: "1 \<notin> container_keys (run_probes ps init_kernel)"
    using run_probes_keys [of 1 ps init_kernel] init by (auto simp: is_container_process_def)
  have c: "trace_container_start ctx k = k \<and> trace_container_stop ctx k = k \<and>
      kprobe_cgroup_attach ctx k = k \<and> trace_process_exec ctx k = k"
    if "get_current_cgroup_id ctx = 0 \<or> get_current_cgroup_id ctx = 1"
  proof -
    from that have "\<not> is_container_process (get_current_cgroup_id ctx)"
      by (auto simp: is_container_process_def)
    then show ?thesis
      using run_probe_root [of ctx Clone k] run_probe_root [of ctx Exit k]
        run_probe_root [of ctx CgroupAttach k] run_probe_root [of ctx Exec k] by simp
  qed
  from a b c show ?thesis by blast
qed

theorem root_cgroup_ignored_witness:
  "get_current_cgroup_id root_ctx = 1 \<and>
   trace_container_start root_ctx sample_kernel = sample_kernel \<and>
   trace_container_stop root_ctx sample_kernel = sample_kernel \<and>
   kprobe_cgroup_attach root_ctx sample_kernel = sample_kernel \<and>
   trace_process_exec root_ctx sample_kernel = sample_kernel \<and>
   0 \<notin> container_keys (run_probes [(Clone, root_ctx), (Clone, exit_ctx True), (Exit, root_ctx)] init_kernel) \<and>
   1 \<notin> container_keys (run_probes [(Clone, root_ctx), (Clone, exit_ctx True), (Exit, root_ctx)] init_kernel)"
proof -
  have g: "get_current_cgroup_id root_ctx = 1"
    by (simp add: get_current_cgroup_id_def root_ctx_def exit_ctx_def)
  from g root_cgroup_ignored [of root_ctx sample_kernel
      "[(Clone, root_ctx), (Clone, exit_ctx True), (Exit, root_ctx)]"]
  show ?thesis by simp
qed

text \<open>
  C2, as amended. On exit-syscall entry in a cgroup other than 0 and 1: when the
  container table holds an entry for the cgroup and the exiting pid is its primary pid,
  the entry is marked stopped, a container-stop event carrying the stopped entry is
  appended to the ring buffer if the reservation succeeds (no event otherwise), and the
  entries of the cgroup and of the pid are gone from the two tables while every other
  container entry stays; when there is no entry, or the pid is not the primary pid, the
  probe leaves every map and the ring buffer unchanged.
\<close>

theorem exit_probe_stops_container:
  assumes "is_container_process (get_current_cgroup_id ctx)"
  shows
    "(\<forall>c. map_of (container_map k) (get_current_cgroup_id ctx) = Some c \<and> ci_pid c = current_pid ctx \<longrightarrow>
        events (trace_container_stop ctx k) =
          (if ringbuf_room ctx
           then events k @ [\<lparr>ev_type = EVENT_CONTAINER_STOP, ev_timestamp = ktime ctx,
                              ev_cgroup_id = get_current_cgroup_id ctx, ev_pid = current_pid ctx,
                              ev_data = PContainer (c\<lparr>ci_status := CONTAINER_STATUS_STOPPED\<rparr>)\<rparr>]
           else events k) \<and>
        container_map (trace_container_stop ctx k) =
          AList.delete (get_current_cgroup_id ctx) (container_map k) \<and>
        get_current_cgroup_id ctx \<notin> container_keys (trace_container_stop ctx k) \<and>
        pid_to_cgroup_map (trace_container_stop ctx k) =
          AList.delete (current_pid ctx) (pid_to_cgroup_map k) \<and>
        current_pid ctx \<notin> fst ` set (pid_to_cgroup_map (trace_container_stop ctx k))) \<and>
     ((map_of (container_map k) (get_current_cgroup_id ctx) = None \<or>
       (\<exists>c. map_of (container_map k) (get_current_cgroup_id ctx) = Some c \<and> ci_pid c \<noteq> current_pid ctx)) \<longrightarrow>
        trace_container_stop ctx k = k)"
proof -
  have matched: "events (trace_container_stop ctx k) =
          (if ringbuf_room ctx
           then events k @ [\<lparr>ev_type = EVENT_CONTAINER_STOP, ev_timestamp = ktime ctx,
                              ev_cgroup_id = get_current_cgroup_id ctx, ev_pid = current_pid ctx,
                              ev_data = PContainer (c\<lparr>ci_status := CONTAINER_STATUS_STOPPED\<rparr>)\<rparr>]
           else events k) \<and>
        container_map (trace_container_stop ctx k) =
          AList.delete (get_current_cgroup_id ctx) (container_map k) \<and>
        get_current_cgroup_id ctx \<notin> container_keys (trace_container_stop ctx k) \<and>
        pid_to_cgroup_map (trace_container_stop ctx k) =
          AList.delete (current_pid ctx) (pid_to_cgroup_map k) \<and>
        current_pid ctx \<notin> fst ` set (pid_to_cgroup_map (trace_container_stop ctx k))"
    if "map_of (container_map k) (get_current_cgroup_id ctx) = Some c" "ci_pid c = current_pid ctx" for c
    using that assms
    by (simp add: trace_container_stop_def Let_def send_events del_upd container_keys_def
        keys_alist_delete)
  have unmatched: "trace_container_stop ctx k = k"
    if "map_of (container_map k) (get_current_cgroup_id ctx) = None \<or>
       (\<exists>c. map_of (container_map k) (get_current_cgroup_id ctx) = Some c \<and> ci_pid c \<noteq> current_pid ctx)"
    using that assms by (auto simp: trace_container_stop_def Let_def)
  from matched unmatched show ?thesis by blast
qed

theorem exit_probe_stops_container_witness:
  "is_container_process (get_current_cgroup_id (exit_ctx True)) \<and>
   map_of (container_map sample_kernel) (get_current_cgroup_id (exit_ctx True)) = Some sample_container \<and>
   ci_pid sample_container = current_pid (exit_ctx True) \<and>
   events (trace_container_stop (exit_ctx True) sample_kernel) =
     [\<lparr>ev_type = EVENT_CONTAINER_STOP, ev_timestamp = 200, ev_cgroup_id = 5, ev_pid = 7,
       ev_data = PContainer (sample_container\<lparr>ci_status := CONTAINER_STATUS_STOPPED\<rparr>)\<rparr>] \<and>
   container_map (trace_container_stop (exit_ctx True) sample_kernel) = [] \<and>
   pid_to_cgroup_map (trace_container_stop (exit_ctx True) sample_kernel) = []"
proof -
  have g: "get_current_cgroup_id (exit_ctx True) = 5"
    by (simp add: get_current_cgroup_id_def exit_ctx_def)
  have p: "current_pid (exit_ctx True) = 7"
    by (simp add: current_pid_def exit_ctx_def)
  have i: "is_container_process (get_current_cgroup_id (exit_ctx True))"
    by (simp add: g is_container_process_def)
  have m: "map_of (container_map sample_kernel) 5 = Some sample_container"
    by (simp add: sample_kernel_def)
  have q: "ci_pid sample_container = 7"
    by (simp add: sample_container_def)
  have r: "ringbuf_room (exit_ctx True)" "ktime (exit_ctx True) = 200"
    by (simp_all add: exit_ctx_def)
  have s: "events sample_kernel = []" "container_map sample_kernel = [(5, sample_container)]"
    "pid_to_cgroup_map sample_kernel = [(7, 5)]"
    by (simp_all add: sample_kernel_def)
  from exit_probe_stops_container [OF i, of sample_kernel] m q
  show ?thesis by (simp add: g p r s is_container_process_def)
qed

text \<open>
  The claim as first stated promises one container-stop event whenever the primary pid
  exits. With the ring buffer full the probe emits none and still deletes both entries.
\<close>

theorem exit_probe_full_ring_counterexample:
  "is_container_process (get_current_cgroup_id (exit_ctx False)) \<and>
   map_of (container_map sample_kernel) (get_current_cgroup_id (exit_ctx False)) = Some sample_container \<and>
   ci_pid sample_container = current_pid (exit_ctx False) \<and>
   events (trace_container_stop (exit_ctx False) sample_kernel) = events sample_kernel \<and>
   container_map (trace_container_stop (exit_ctx False) sample_kernel) = [] \<and>
   pid_to_cgroup_map (trace_container_stop (exit_ctx False) sample_kernel) = []"
proof -
  have g: "get_current_cgroup_id (exit_ctx False) = 5"
    by (simp add: get_current_cgroup_id_def exit_ctx_def)
  have p: "current_pid (exit_ctx False) = 7"
    by (simp add: current_pid_def exit_ctx_def)
  have r: "\<not> ringbuf_room (exit_ctx False)"
    by (simp add: exit_ctx_def)
  have q: "ci_pid sample_container = 7"
    by (simp add: sample_container_def)
  have s: "container_map sample_kernel = [(5, sample_container)]"
    "pid_to_cgroup_map sample_kernel = [(7, 5)]"
    by (simp_all add: sample_kernel_def)
  show ?thesis
    by (simp add: trace_container_stop_def Let_def g p q r s is_container_process_def send_events)
qed

section \<open>Properties of Start and Stop\<close>

lemma cleanup_running [simp]: "running (cleanup m) = running m"
  by (simp add: cleanup_def)

lemma Start_success_running:
  assumes "fst (Start env m) = None"
  shows "running (snd (Start env m))"
proof (cases "running m")
  case True
  with assms show ?thesis by (simp add: Start_def)
next
  case False
  with assms show ?thesis
    by (auto simp: Start_def split: prod.splits option.splits)
qed

lemma Stop_not_running: "\<not> running (snd (Stop m))"
  by (simp add: Stop_def)

text \<open>
  C3. Start on a running monitor returns an error and the monitor as it was: the
  running flag, the links, the collection and the pointer to the metrics (so what
  GetMetrics reads) are unchanged. Stop on a monitor that is not running returns no
  error and the monitor as it was. Hence a second Start after a successful Start fails
  without effect, and a second Stop after any Stop succeeds without effect.
\<close>

theorem start_stop_guards:
  "(running m \<longrightarrow> Start env m = (Some AlreadyRunning, m) \<and>
      GetMetrics h (snd (Start env m)) = GetMetrics h m) \<and>
   (\<not> running m \<longrightarrow> Stop m = (None, m)) \<and>
   (fst (Start env m) = None \<longrightarrow>
      Start env' (snd (Start env m)) = (Some AlreadyRunning, snd (Start env m))) \<and>
   Stop (snd (Stop m)) = (None, snd (Stop m))"
proof -
  have a: "Start env m = (Some AlreadyRunning, m)" if "running m"
    using that by (simp add: Start_def)
  have b: "Stop m = (None, m)" if "\<not> running m"
    using that by (simp add: Stop_def)
  have c: "Start env' (snd (Start env m)) = (Some AlreadyRunning, snd (Start env m))"
    if "fst (Start env m) = None"
    using Start_success_running [OF that] by (simp add: Start_def)
  have d: "Stop (snd (Stop m)) = (None, snd (Stop m))"
    using Stop_not_running [of m] by (simp add: Stop_def)
  from a b c d show ?thesis by simp
qed

theorem start_stop_guards_witness:
  "running running_monitor \<and>
   Start sample_env running_monitor = (Some AlreadyRunning, running_monitor) \<and>
   \<not> running stopped_monitor \<and>
   Stop stopped_monitor = (None, stopped_monitor) \<and>
   fst (Start sample_env stopped_monitor) = None \<and>
   Start sample_env (snd (Start sample_env stopped_monitor)) =
     (Some AlreadyRunning, snd (Start sample_env stopped_monitor))"
proof -
  have r: "running running_monitor" by (simp add: running_monitor_def)
  have s: "\<not> running stopped_monitor" by (simp add: stopped_monitor_def)
  have ok: "fst (Start sample_env stopped_monitor) = None"
    by (simp add: Start_def stopped_monitor_def sample_env_def loadPrograms_def attachPrograms_def
        attachContainerTracing_def attachNetworkMonitoring_def attach_hook_def processor_Start_def)
  from start_stop_guards [of running_monitor sample_env sample_heap sample_env]
    start_stop_guards [of stopped_monitor sample_env sample_heap sample_env] r s ok
  show ?thesis by simp
qed

section \<open>Properties of the sample handlers\<close>

lemma calculateCPUStats_samples [simp]:
  "CPUSamples (calculateCPUStats c) = CPUSamples c"
  "MemorySamples (calculateCPUStats c) = MemorySamples c"
  by (simp_all add: calculateCPUStats_def split: list.splits)

lemma calculateMemoryStats_samples [simp]:
  "CPUSamples (calculateMemoryStats c) = CPUSamples c"
  "MemorySamples (calculateMemoryStats c) = MemorySamples c"
  by (simp_all add: calculateMemoryStats_def split: list.splits)

lemma add_cpu_sample_samples:
  "CPUSamples (add_cpu_sample now c) =
     (if length (CPUSamples c) \<ge> 100 then tl (CPUSamples c @ [50]) else CPUSamples c @ [50])"
  "MemorySamples (add_cpu_sample now c) = MemorySamples c"
  by (simp_all add: add_cpu_sample_def Let_def)

lemma add_memory_sample_samples:
  "MemorySamples (add_memory_sample now c) =
     (if length (MemorySamples c) \<ge> 100 then tl (MemorySamples c @ [512 * 1024 * 1024])
      else MemorySamples c @ [512 * 1024 * 1024])"
  "CPUSamples (add_memory_sample now c) = CPUSamples c"
  by (simp_all add: add_memory_sample_def Let_def)

lemma add_cpu_sample_bounded: "record_bounded c \<Longrightarrow> record_bounded (add_cpu_sample now c)"
  by (auto simp: record_bounded_def add_cpu_sample_samples)

lemma add_memory_sample_bounded: "record_bounded c \<Longrightarrow> record_bounded (add_memory_sample now c)"
  by (auto simp: record_bounded_def add_memory_sample_samples)

lemma samples_bounded_iff: "samples_bounded agg \<longleftrightarrow> (\<forall>c \<in> ran (containerMetrics agg). record_bounded c)"
  by (simp add: samples_bounded_def record_bounded_def)

lemma ran_upd_cases: "x \<in> ran (m(k \<mapsto> v)) \<Longrightarrow> x = v \<or> x \<in> ran m"
  by (auto simp: ran_def split: if_splits)

lemma bounded_upd:
  assumes "samples_bounded agg" "record_bounded v"
  shows "samples_bounded (agg\<lparr>containerMetrics := (containerMetrics agg)(k \<mapsto> v)\<rparr>)"
  using assms by (auto simp: samples_bounded_iff dest: ran_upd_cases)

lemma bounded_lookup:
  "samples_bounded agg \<Longrightarrow> containerMetrics agg k = Some c \<Longrightarrow> record_bounded c"
  by (auto simp: samples_bounded_iff ran_def)

lemma start_bounded: "samples_bounded agg \<Longrightarrow> samples_bounded (snd (ContainerStartHandler now e agg))"
  unfolding ContainerStartHandler_def Let_def snd_conv
  by (rule bounded_upd) (auto simp: record_bounded_def dest: bounded_lookup split: option.splits)

lemma stop_bounded: "samples_bounded agg \<Longrightarrow> samples_bounded (snd (ContainerStopHandler now e agg))"
proof (cases "containerMetrics agg (ed_CgroupID e)")
  case None
  then show "samples_bounded agg \<Longrightarrow> ?thesis" by (simp add: ContainerStopHandler_def)
next
  case (Some c)
  assume b: "samples_bounded agg"
  from bounded_lookup [OF b Some] have "record_bounded (c\<lparr>acm_Status := ''stopped'', acm_LastUpdate := now\<rparr>)"
    by (simp add: record_bounded_def)
  from bounded_upd [OF b this] Some show ?thesis by (simp add: ContainerStopHandler_def)
qed

lemma network_bounded: "samples_bounded agg \<Longrightarrow> samples_bounded (snd (NetworkPacketHandler now e agg))"
  by (simp add: NetworkPacketHandler_def Let_def samples_bounded_def)

lemma cpu_bounded: "samples_bounded agg \<Longrightarrow> samples_bounded (snd (CPUSampleHandler now e agg))"
proof (cases "containerMetrics agg (ed_CgroupID e)")
  case None
  then show "samples_bounded agg \<Longrightarrow> ?thesis" by (simp add: CPUSampleHandler_def)
next
  case (Some c)
  assume b: "samples_bounded agg"
  from bounded_upd [OF b add_cpu_sample_bounded [OF bounded_lookup [OF b Some]]] Some
  show ?thesis by (simp add: CPUSampleHandler_def)
qed

lemma memory_bounded: "samples_bounded agg \<Longrightarrow> samples_bounded (snd (MemorySampleHandler now e agg))"
proof (cases "containerMetrics agg (ed_CgroupID e)")
  case None
  then show "samples_bounded agg \<Longrightarrow> ?thesis" by (simp add: MemorySampleHandler_def)
next
  case (Some c)
  assume b: "samples_bounded agg"
  from bounded_upd [OF b add_memory_sample_bounded [OF bounded_lookup [OF b Some]]] Some
  show ?thesis by (simp add: MemorySampleHandler_def)
qed

lemma dispatch_event_bounded: "samples_bounded agg \<Longrightarrow> samples_bounded (snd (dispatch_event now e agg))"
  by (simp add: dispatch_event_def start_bounded stop_bounded network_bounded cpu_bounded memory_bounded)

lemma handle_events_bounded: "samples_bounded agg \<Longrightarrow> samples_bounded (handle_events evs agg)"
proof (induction evs arbitrary: agg)
  case Nil
  then show ?case by simp
next
  case (Cons a evs)
  obtain now e where a: "a = (now, e)" by (cases a)
  from Cons.prems have "samples_bounded (snd (dispatch_event now e agg))" by (rule dispatch_event_bounded)
  from Cons.IH [OF this] show ?case by (simp add: a)
qed

text \<open>
  C4. The aggregator starts without records; whatever events its handlers are given,
  no record ever holds more than 100 CPU samples or more than 100 memory samples. A
  sample handler appends the new sample, and when the record already held 100 the
  oldest sample is the one dropped.
\<close>

theorem samples_never_exceed_100:
  "samples_bounded new_aggregator \<and>
   (samples_bounded agg \<longrightarrow> samples_bounded (handle_events evs agg)) \<and>
   (samples_bounded agg \<and> containerMetrics agg (ed_CgroupID event) = Some c \<longrightarrow>
      (\<exists>c1 c2.
         containerMetrics (snd (CPUSampleHandler now event agg)) (ed_CgroupID event) = Some c1 \<and>
         CPUSamples c1 =
           (if length (CPUSamples c) = 100 then tl (CPUSamples c) @ [50] else CPUSamples c @ [50]) \<and>
         MemorySamples c1 = MemorySamples c \<and>
         containerMetrics (snd (MemorySampleHandler now event agg)) (ed_CgroupID event) = Some c2 \<and>
         MemorySamples c2 =
           (if length (MemorySamples c) = 100 then tl (MemorySamples c) @ [512 * 1024 * 1024]
            else MemorySamples c @ [512 * 1024 * 1024]) \<and>
         CPUSamples c2 = CPUSamples c))"
proof -
  have init: "samples_bounded new_aggregator"
    by (simp add: samples_bounded_def new_aggregator_def)
  have step: "\<exists>c1 c2.
         containerMetrics (snd (CPUSampleHandler now event agg)) (ed_CgroupID event) = Some c1 \<and>
         CPUSamples c1 =
           (if length (CPUSamples c) = 100 then tl (CPUSamples c) @ [50] else CPUSamples c @ [50]) \<and>
         MemorySamples c1 = MemorySamples c \<and>
         containerMetrics (snd (MemorySampleHandler now event agg)) (ed_CgroupID event) = Some c2 \<and>
         MemorySamples c2 =
           (if length (MemorySamples c) = 100 then tl (MemorySamples c) @ [512 * 1024 * 1024]
            else MemorySamples c @ [512 * 1024 * 1024]) \<and>
         CPUSamples c2 = CPUSamples c"
    if b: "samples_bounded agg" and l: "containerMetrics agg (ed_CgroupID event) = Some c"
  proof -
    from bounded_lookup [OF b l]
    have le: "length (CPUSamples c) \<le> 100" "length (MemorySamples c) \<le> 100"
      by (simp_all add: record_bounded_def)
    have ne: "CPUSamples c \<noteq> []" if "length (CPUSamples c) = 100"
      using that by auto
    have ne': "MemorySamples c \<noteq> []" if "length (MemorySamples c) = 100"
      using that by auto
    from le ne have cpu: "CPUSamples (add_cpu_sample now c) =
        (if length (CPUSamples c) = 100 then tl (CPUSamples c) @ [50] else CPUSamples c @ [50])"
      by (auto simp: add_cpu_sample_samples)
    from le ne' have mem: "MemorySamples (add_memory_sample now c) =
        (if length (MemorySamples c) = 100 then tl (MemorySamples c) @ [512 * 1024 * 1024]
         else MemorySamples c @ [512 * 1024 * 1024])"
      by (auto simp: add_memory_sample_samples)
    from l cpu mem show ?thesis
      by (simp add: CPUSampleHandler_def MemorySampleHandler_def add_cpu_sample_samples
          add_memory_sample_samples)
  qed
  from init handle_events_bounded [of agg evs] step show ?thesis by blast
qed

theorem samples_never_exceed_100_witness:
  "samples_bounded full_aggregator \<and>
   containerMetrics full_aggregator (ed_CgroupID (sample_event 4)) = Some full_record \<and>
   length (CPUSamples full_record) = 100 \<and>
   samples_bounded (handle_events [(1, sample_event 4), (2, sample_event 5)] full_aggregator) \<and>
   (\<exists>c1 c2.
      containerMetrics (snd (CPUSampleHandler 1 (sample_event 4) full_aggregator)) 5 = Some c1 \<and>
      CPUSamples c1 = replicate 99 20 @ [50] \<and>
      containerMetrics (snd (MemorySampleHandler 1 (sample_event 4) full_aggregator)) 5 = Some c2 \<and>
      MemorySamples c2 = replicate 99 2 @ [512 * 1024 * 1024])"
proof -
  have b: "samples_bounded full_aggregator"
    by (simp add: samples_bounded_def full_aggregator_def full_record_def)
  have l: "containerMetrics full_aggregator (ed_CgroupID (sample_event 4)) = Some full_record"
    by (simp add: full_aggregator_def sample_event_def)
  have n: "length (CPUSamples full_record) = 100" "length (MemorySamples full_record) = 100"
    "tl (CPUSamples full_record) = replicate 99 20" "tl (MemorySamples full_record) = replicate 99 2"
    by (simp_all add: full_record_def)
  have e: "ed_CgroupID (sample_event 4) = 5"
    by (simp add: sample_event_def)
  from samples_never_exceed_100 [of full_aggregator "[(1, sample_event 4), (2, sample_event 5)]"
      "sample_event 4" full_record 1] b l
  show ?thesis by (simp add: n e) blast
qed

section \<open>Properties of GetMetrics\<close>

lemma nth_of_take: "take n xs = ys \<Longrightarrow> i < n \<Longrightarrow> xs ! i = ys ! i"
  by auto

lemma GetMetrics_result:
  assumes "valid_monitor h m"
  shows "GetMetrics h m =
     (length (objects h),
      \<lparr>arrays = arrays h @ [slice_elems h (Containers (objects h ! mon_metrics m))],
       objects = objects h @ [(objects h ! mon_metrics m)
         \<lparr>Containers := Slice (length (arrays h)) (slice_len (Containers (objects h ! mon_metrics m)))\<rparr>]\<rparr>)"
proof (cases "Containers (objects h ! mon_metrics m)")
  case NilSlice
  then show ?thesis
    by (simp add: GetMetrics_def make_slice_def copy_slice_def Let_def)
next
  case (Slice a n)
  with assms have a: "a < length (arrays h)" and n: "n \<le> length (arrays h ! a)"
    by (simp_all add: valid_monitor_def)
  from Slice a n show ?thesis
    by (simp add: GetMetrics_def make_slice_def copy_slice_def Let_def nth_append min_def)
qed

lemma GetMetrics_frame:
  assumes "valid_monitor h m"
  shows "frame h (fst (GetMetrics h m)) (snd (GetMetrics h m))"
  by (simp add: GetMetrics_result [OF assms] frame_def)

lemma GetMetrics_view:
  assumes "valid_monitor h m"
  shows "metrics_view (snd (GetMetrics h m)) (fst (GetMetrics h m)) = metrics_view h (mon_metrics m)"
proof (cases "Containers (objects h ! mon_metrics m)")
  case NilSlice
  then show ?thesis by (simp add: GetMetrics_result [OF assms] metrics_view_def Let_def)
next
  case (Slice a n)
  with assms have "n \<le> length (arrays h ! a)" by (simp add: valid_monitor_def)
  with Slice show ?thesis by (simp add: GetMetrics_result [OF assms] metrics_view_def Let_def)
qed

lemma frame_mutation:
  assumes "frame h r g" "apply_mutation g r mu = Some g'"
  shows "frame h r g'"
proof (cases mu)
  case (SetElem i v)
  with assms show ?thesis
    by (auto simp: frame_def split: slice.splits if_splits)
next
  case (Reslice k)
  with assms show ?thesis
    by (auto simp: frame_def split: slice.splits if_splits)
qed (use assms in \<open>auto simp: frame_def\<close>)

lemma frame_run: "frame h r g \<Longrightarrow> frame h r (run_mutations g r mus)"
proof (induction mus arbitrary: g)
  case Nil
  then show ?case by simp
next
  case (Cons mu mus)
  show ?case
  proof (cases "apply_mutation g r mu")
    case None
    with Cons.prems show ?thesis by simp
  next
    case (Some g')
    from Cons.IH [OF frame_mutation [OF Cons.prems Some]] Some show ?thesis by simp
  qed
qed

lemma frame_view:
  assumes "valid_monitor h m" "frame h r g"
  shows "metrics_view g (mon_metrics m) = metrics_view h (mon_metrics m)"
    and "valid_monitor g m"
proof -
  from assms(1) have p: "mon_metrics m < length (objects h)" by (simp add: valid_monitor_def)
  from assms(2) have o: "objects g ! mon_metrics m = objects h ! mon_metrics m"
    using nth_of_take [of "length (objects h)" "objects g" "objects h" "mon_metrics m"] p
    by (simp add: frame_def)
  have a: "arrays g ! b = arrays h ! b" if "b < length (arrays h)" for b
    using assms(2) nth_of_take [of "length (arrays h)" "arrays g" "arrays h" b] that
    by (simp add: frame_def)
  show "metrics_view g (mon_metrics m) = metrics_view h (mon_metrics m)"
  proof (cases "Containers (objects h ! mon_metrics m)")
    case NilSlice
    with o show ?thesis by (simp add: metrics_view_def Let_def)
  next
    case (Slice b n)
    with assms(1) have "b < length (arrays h)" by (simp add: valid_monitor_def)
    with Slice o a show ?thesis by (simp add: metrics_view_def Let_def)
  qed
  show "valid_monitor g m"
  proof (cases "Containers (objects h ! mon_metrics m)")
    case NilSlice
    with o p assms(2) show ?thesis by (simp add: valid_monitor_def frame_def)
  next
    case (Slice b n)
    with assms(1) have "b < length (arrays h)" "n \<le> length (arrays h ! b)"
      by (simp_all add: valid_monitor_def)
    with Slice o p a assms(2) show ?thesis by (simp add: valid_monitor_def frame_def)
  qed
qed

text \<open>
  C9. GetMetrics returns a pointer to a new Metrics object over a new array, holding
  the values of the monitor's metrics. Whatever the caller then writes through that
  pointer (scalar fields, elements of Containers, the slice itself), the monitor's
  metrics read as before, and the next GetMetrics returns the values the first call
  returned.
\<close>

theorem GetMetrics_deep_copy:
  assumes "valid_monitor h m"
  shows
    "fst (GetMetrics h m) \<noteq> mon_metrics m \<and>
     metrics_view (snd (GetMetrics h m)) (fst (GetMetrics h m)) = metrics_view h (mon_metrics m) \<and>
     metrics_view (run_mutations (snd (GetMetrics h m)) (fst (GetMetrics h m)) mus) (mon_metrics m) =
       metrics_view h (mon_metrics m) \<and>
     metrics_view (snd (GetMetrics (run_mutations (snd (GetMetrics h m)) (fst (GetMetrics h m)) mus) m))
         (fst (GetMetrics (run_mutations (snd (GetMetrics h m)) (fst (GetMetrics h m)) mus) m)) =
       metrics_view (snd (GetMetrics h m)) (fst (GetMetrics h m))"
proof -
  let ?r = "fst (GetMetrics h m)"
  let ?h1 = "snd (GetMetrics h m)"
  let ?h2 = "run_mutations ?h1 ?r mus"
  from assms have fresh: "?r \<noteq> mon_metrics m"
    by (simp add: GetMetrics_result [OF assms] valid_monitor_def)
  have f: "frame h ?r ?h2"
    by (rule frame_run [OF GetMetrics_frame [OF assms]])
  note v = frame_view [OF assms f]
  from GetMetrics_view [OF v(2)] v(1) GetMetrics_view [OF assms] fresh
  show ?thesis by simp
qed

theorem GetMetrics_deep_copy_witness:
  "valid_monitor sample_heap running_monitor \<and>
   metrics_view
     (run_mutations (snd (GetMetrics sample_heap running_monitor))
        (fst (GetMetrics sample_heap running_monitor))
        [SetSystemMemory 0, SetElem 0 zero_ContainerMetric, SetContainersNil])
     (mon_metrics running_monitor) =
     ([sample_metric ''a'', sample_metric ''b''], 42, 9, 77) \<and>
   metrics_view
     (snd (GetMetrics
        (run_mutations (snd (GetMetrics sample_heap running_monitor))
           (fst (GetMetrics sample_heap running_monitor))
           [SetSystemMemory 0, SetElem 0 zero_ContainerMetric, SetContainersNil]) running_monitor))
     (fst (GetMetrics
        (run_mutations (snd (GetMetrics sample_heap running_monitor))
           (fst (GetMetrics sample_heap running_monitor))
           [SetSystemMemory 0, SetElem 0 zero_ContainerMetric, SetContainersNil]) running_monitor)) =
     ([sample_metric ''a'', sample_metric ''b''], 42, 9, 77)"
proof -
  have v: "valid_monitor sample_heap running_monitor"
    by (simp add: valid_monitor_def sample_heap_def running_monitor_def)
  have w: "metrics_view sample_heap (mon_metrics running_monitor) =
      ([sample_metric ''a'', sample_metric ''b''], 42, 9, 77)"
    by (simp add: metrics_view_def sample_heap_def running_monitor_def Let_def)
  from GetMetrics_deep_copy [OF v,
      of "[SetSystemMemory 0, SetElem 0 zero_ContainerMetric, SetContainersNil]"] v w
  show ?thesis by simp
qed

section \<open>Properties of the object pools\<close>

lemma Get_ok: "pool_ok p \<Longrightarrow> pool_ok (snd (ObjectPool_Get p))"
  by (auto simp: pool_ok_def ObjectPool_Get_def split: list.splits)

lemma Put_ok: "pool_ok p \<Longrightarrow> pool_ok (fst (ObjectPool_Put p obj))"
  by (auto simp: pool_ok_def ObjectPool_Put_def Let_def split: option.splits)

lemma Get_fields [simp]:
  "pool_factory (snd (ObjectPool_Get p)) = pool_factory p"
  "pool_reset (snd (ObjectPool_Get p)) = pool_reset p"
  "pool_maxSize (snd (ObjectPool_Get p)) = pool_maxSize p"
  by (simp_all add: ObjectPool_Get_def split: list.splits)

lemma Put_fields [simp]:
  "pool_factory (fst (ObjectPool_Put p obj)) = pool_factory p"
  "pool_reset (fst (ObjectPool_Put p obj)) = pool_reset p"
  "pool_maxSize (fst (ObjectPool_Put p obj)) = pool_maxSize p"
  by (simp_all add: ObjectPool_Put_def Let_def split: option.splits)

lemma step_ok: "pool_ok p \<Longrightarrow> pool_ok (pool_step p op)"
  by (cases op) (simp_all add: Get_ok Put_ok)

lemma step_fields [simp]:
  "pool_factory (pool_step p op) = pool_factory p"
  "pool_reset (pool_step p op) = pool_reset p"
  "pool_maxSize (pool_step p op) = pool_maxSize p"
  by (cases op; simp)+

lemma run_ok: "pool_ok p \<Longrightarrow> pool_ok (run_pool_ops ops p)"
  unfolding run_pool_ops_def by (induction ops arbitrary: p) (simp_all add: step_ok)

lemma run_fields:
  "pool_factory (run_pool_ops ops p) = pool_factory p \<and>
   pool_reset (run_pool_ops ops p) = pool_reset p \<and>
   pool_maxSize (run_pool_ops ops p) = pool_maxSize p"
  unfolding run_pool_ops_def by (induction ops arbitrary: p) simp_all

lemma ok_size:
  assumes "pool_ok p"
  shows "int (pool_size p) \<le> pool_maxSize p"
proof -
  from assms have "length (chan_buf (pool_objects p)) \<le> nat (pool_maxSize p)" "0 \<le> pool_maxSize p"
    by (simp_all add: pool_ok_def)
  then show ?thesis unfolding pool_size_def by linarith
qed

lemma Put_full:
  assumes "pool_ok p" "int (pool_size p) = pool_maxSize p"
  shows "ObjectPool_Put p (Some x) = (p, Some (case pool_reset p of None \<Rightarrow> x | Some reset \<Rightarrow> reset x))"
  using assms by (simp add: ObjectPool_Put_def Let_def pool_ok_def pool_size_def)

lemma Get_empty: "pool_size p = 0 \<Longrightarrow> fst (ObjectPool_Get p) = pool_factory p ()"
  by (simp add: ObjectPool_Get_def pool_size_def)

lemma Get_not_nil:
  assumes "pool_ok p" "pool_factory p () \<noteq> None"
  shows "fst (ObjectPool_Get p) \<noteq> None"
proof (cases "chan_buf (pool_objects p)")
  case Nil
  with assms(2) show ?thesis by (simp add: ObjectPool_Get_def)
next
  case (Cons obj rest)
  from assms(1) have "None \<notin> set (chan_buf (pool_objects p))" by (simp add: pool_ok_def)
  with Cons have "obj \<noteq> None" by (metis list.set_intros(1))
  with Cons show ?thesis by (simp add: ObjectPool_Get_def)
qed

lemma Get_nil_iff:
  assumes "pool_ok p"
  shows "fst (ObjectPool_Get p) = None \<longleftrightarrow> pool_size p = 0 \<and> pool_factory p () = None"
proof (cases "chan_buf (pool_objects p)")
  case Nil
  then show ?thesis by (simp add: ObjectPool_Get_def pool_size_def)
next
  case (Cons obj rest)
  from assms have "None \<notin> set (chan_buf (pool_objects p))" by (simp add: pool_ok_def)
  with Cons have "obj \<noteq> None" by (metis list.set_intros(1))
  with Cons show ?thesis by (simp add: ObjectPool_Get_def pool_size_def)
qed

text \<open>
  C10, as amended. A pool created with capacity maxSize starts empty, and after any
  sequence of Get and Put it holds at most maxSize objects, none of them nil. Put on a
  full pool resets the object and leaves the pool as it was; Put of nil changes
  nothing; Get on an empty pool returns what the factory returns; and Get returns nil
  exactly when the pool is empty and the factory returns nil.
\<close>

theorem pool_never_exceeds_maxSize:
  assumes "CreatePool mm name maxSize factory reset = Some mm'"
  shows
    "\<exists>p0. mm_pools mm' name = Some p0 \<and> pool_size p0 = 0 \<and>
       int (pool_size (run_pool_ops ops p0)) \<le> maxSize \<and>
       None \<notin> set (chan_buf (pool_objects (run_pool_ops ops p0))) \<and>
       (int (pool_size (run_pool_ops ops p0)) = maxSize \<longrightarrow>
          ObjectPool_Put (run_pool_ops ops p0) (Some x) =
            (run_pool_ops ops p0, Some (case reset of None \<Rightarrow> x | Some f \<Rightarrow> f x))) \<and>
       ObjectPool_Put (run_pool_ops ops p0) None = (run_pool_ops ops p0, None) \<and>
       (pool_size (run_pool_ops ops p0) = 0 \<longrightarrow>
          fst (ObjectPool_Get (run_pool_ops ops p0)) = factory ()) \<and>
       (fst (ObjectPool_Get (run_pool_ops ops p0)) = None) =
         (pool_size (run_pool_ops ops p0) = 0 \<and> factory () = None)"
proof -
  define p0 where "p0 = \<lparr>pool_name = name, pool_objects = \<lparr>chan_buf = [], chan_cap = nat maxSize\<rparr>,
      pool_factory = factory, pool_reset = reset, pool_maxSize = maxSize,
      pool_created = 0, pool_hits = 0, pool_misses = 0\<rparr>"
  from assms have nonneg: "0 \<le> maxSize" and mm': "mm' = mm\<lparr>mm_pools := (mm_pools mm)(name \<mapsto> p0)\<rparr>"
    by (auto simp: CreatePool_def p0_def Let_def split: if_splits)
  let ?p = "run_pool_ops ops p0"
  from nonneg have "pool_ok p0" by (simp add: pool_ok_def p0_def)
  then have ok: "pool_ok ?p" by (rule run_ok)
  have fields: "pool_factory ?p = factory" "pool_reset ?p = reset" "pool_maxSize ?p = maxSize"
    using run_fields [of ops p0] by (simp_all add: p0_def)
  have 1: "mm_pools mm' name = Some p0" by (simp add: mm')
  have 2: "pool_size p0 = 0" by (simp add: pool_size_def p0_def)
  have 3: "int (pool_size ?p) \<le> maxSize" using ok_size [OF ok] fields by simp
  have 4: "None \<notin> set (chan_buf (pool_objects ?p))" using ok by (simp add: pool_ok_def)
  have 5: "ObjectPool_Put ?p (Some x) = (?p, Some (case reset of None \<Rightarrow> x | Some f \<Rightarrow> f x))"
    if "int (pool_size ?p) = maxSize"
    using Put_full [OF ok, of x] that fields by simp
  have 6: "ObjectPool_Put ?p None = (?p, None)" by (simp add: ObjectPool_Put_def)
  have 7: "fst (ObjectPool_Get ?p) = factory ()" if "pool_size ?p = 0"
    using Get_empty [OF that] fields by simp
  have 8: "(fst (ObjectPool_Get ?p) = None) = (pool_size ?p = 0 \<and> factory () = None)"
    using Get_nil_iff [OF ok] fields by simp
  show ?thesis
    by (rule exI [of _ p0]) (use 1 2 3 4 5 6 7 8 in simp)
qed

theorem pool_never_exceeds_maxSize_witness:
  "\<exists>mm'. CreatePool sample_manager ''flow_keys'' 2 (\<lambda>u. Some 0) (Some (\<lambda>x. 0)) = Some mm' \<and>
     (\<exists>p0. mm_pools mm' ''flow_keys'' = Some p0 \<and> pool_size p0 = 0 \<and>
        int (pool_size (run_pool_ops [OpPut (Some 5), OpPut (Some 6), OpPut (Some 7), OpPut None] p0)) \<le> 2 \<and>
        None \<notin> set (chan_buf (pool_objects
          (run_pool_ops [OpPut (Some 5), OpPut (Some 6), OpPut (Some 7), OpPut None] p0))))"
proof -
  obtain mm' where c: "CreatePool sample_manager ''flow_keys'' 2 (\<lambda>u. Some 0) (Some (\<lambda>x. 0)) = Some mm'"
    by (simp add: CreatePool_def)
  from pool_never_exceeds_maxSize [OF c,
      of "[OpPut (Some 5), OpPut (Some 6), OpPut (Some 7), OpPut None]"] c
  show ?thesis by blast
qed

text \<open>
  The claim as first stated has Get never return nil. CreatePool takes any factory: a
  pool whose factory returns nil is created like any other, and Get on it, empty as it
  is, returns nil.
\<close>

theorem pool_Get_nil_counterexample:
  "\<exists>mm' p0. CreatePool sample_manager ''flow_keys'' 2 (\<lambda>u. None) None = Some mm' \<and>
     mm_pools mm' ''flow_keys'' = Some p0 \<and> pool_size p0 = 0 \<and>
     fst (ObjectPool_Get p0) = None"
  by (simp add: CreatePool_def pool_size_def ObjectPool_Get_def)

section \<open>The latency calculateNetworkMetrics reports\<close>

lemma reported_latency:
  "cm_NetworkLatency (container_metric_of c flows) =
     nm_AvgLatency (calculateNetworkMetrics (ci_cgroup_id c) flows)"
  by (simp add: container_metric_of_def Let_def)

text \<open>
  With one flow the report is that flow's mean, and with two flows the mean of the two
  (provided the first is not 0).
\<close>

lemma latency_of_one_flow:
  "nm_AvgLatency (calculateNetworkMetrics cg [(key, stats)]) =
     (if fk_CgroupID key = cg \<and> fs_latency_count stats > 0
      then real (unat (fs_latency_sum stats)) / real (unat (fs_latency_count stats)) / 1000000
      else 0)"
  by (simp add: calculateNetworkMetrics_def flow_step_def Let_def)

lemma latency_of_two_flows:
  assumes "fk_CgroupID k1 = cg" "fk_CgroupID k2 = cg" "fs_latency_count s1 > 0" "fs_latency_count s2 > 0"
    and "fs_latency_sum s1 \<noteq> 0"
  shows "nm_AvgLatency (calculateNetworkMetrics cg [(k1, s1), (k2, s2)]) =
     spec_mean_latency cg [(k1, s1), (k2, s2)]"
proof -
  from assms(3) have c: "fs_latency_count s1 \<noteq> 0" by auto
  from c assms(5)
  have nz: "real (unat (fs_latency_sum s1)) / real (unat (fs_latency_count s1)) / 1000000 \<noteq> 0"
    by (simp add: unsigned_eq_0_iff)
  from assms(1-4) nz show ?thesis
    by (simp add: calculateNetworkMetrics_def flow_step_def Let_def spec_mean_latency_def)
qed

text \<open>
  C5. The latency reported for a container is a running halving, not the mean over its
  flows: each further flow replaces the value by the half sum of the value and the
  flow's own mean. For the three flows of 1 ms, 1 ms and 4 ms (mean 2 ms) the report is
  2.5 ms or 1.75 ms, depending on the order in which the flow table is iterated. For
  the single flow with latency_sum = 5000000 and latency_count = 1 it is 5 ms.
\<close>

theorem latency_is_not_the_mean:
  "ci_cgroup_id sample_container = 5 \<and>
   cm_NetworkLatency (container_metric_of sample_container three_flows) = 5 / 2 \<and>
   spec_mean_latency 5 three_flows = 2 \<and>
   cm_NetworkLatency (container_metric_of sample_container
     [sample_flow 5000 1000000, sample_flow 5002 4000000, sample_flow 5001 1000000]) = 7 / 4 \<and>
   cm_NetworkLatency (container_metric_of sample_container
     [sample_flow 5002 4000000, sample_flow 5000 1000000, sample_flow 5001 1000000]) = 7 / 4 \<and>
   cm_NetworkLatency (container_metric_of sample_container [sample_flow 5000 5000000]) = 5"
proof -
  have c: "ci_cgroup_id sample_container = 5" by (simp add: sample_container_def)
  have s: "flow_step 5 acc (sample_flow port l) =
      acc\<lparr>nm_TotalPackets := nm_TotalPackets acc + 1, nm_TotalBytes := nm_TotalBytes acc + 60,
          nm_TCPRetransmits := nm_TCPRetransmits acc,
          nm_AvgLatency := (if nm_AvgLatency acc = 0 then real (unat l) / 1000000
                            else (nm_AvgLatency acc + real (unat l) / 1000000) / 2)\<rparr>" for acc port l
    by (simp add: flow_step_def sample_flow_def Let_def)
  have 1: "nm_AvgLatency (calculateNetworkMetrics 5 three_flows) = 5 / 2"
    by (simp add: calculateNetworkMetrics_def three_flows_def s)
  have 2: "spec_mean_latency 5 three_flows = 2"
    by (simp add: spec_mean_latency_def three_flows_def sample_flow_def Let_def)
  have 3: "nm_AvgLatency (calculateNetworkMetrics 5
      [sample_flow 5000 1000000, sample_flow 5002 4000000, sample_flow 5001 1000000]) = 7 / 4"
    by (simp add: calculateNetworkMetrics_def s)
  have 4: "nm_AvgLatency (calculateNetworkMetrics 5
      [sample_flow 5002 4000000, sample_flow 5000 1000000, sample_flow 5001 1000000]) = 7 / 4"
    by (simp add: calculateNetworkMetrics_def s)
  have 5: "nm_AvgLatency (calculateNetworkMetrics 5 [sample_flow 5000 5000000]) = 5"
    by (simp add: calculateNetworkMetrics_def s)
  from c 1 2 3 4 5 show ?thesis by (simp add: reported_latency)
qed

section \<open>Loading a configuration\<close>

lemma Load_needs_thresholds:
  assumes "at_CPU (Thresholds (Monitoring c)) = 0 \<or> at_Memory (Thresholds (Monitoring c)) = 0 \<or>
           at_NetworkLatency (Thresholds (Monitoring c)) = 0"
  shows "\<exists>e. Load (Decoded c) = Inl e"
  using assms by (auto simp: Load_def Validate_def Let_def split: option.splits)

lemma validate_targets_rate:
  "validate_targets i ts = None \<Longrightarrow> t \<in> set ts \<Longrightarrow> Second \<le> tc_SamplingRate t"
  by (induction ts arbitrary: i) (auto split: if_splits)

lemma Load_needs_sampling_rate:
  assumes "t \<in> set (Targets (Monitoring c))" "tc_SamplingRate t = 0"
  shows "\<exists>e. Load (Decoded c) = Inl e"
proof (cases "Validate c")
  case None
  then have "validate_targets 0 (Targets (Monitoring c)) = None"
    by (auto simp: Validate_def split: if_splits option.splits)
  from validate_targets_rate [OF this assms(1)] assms(2) show ?thesis by (simp add: Second_def)
next
  case (Some e)
  then show ?thesis by (simp add: Load_def)
qed

text \<open>
  When Load succeeds, the thresholds and every sampling rate are the ones of the file.
\<close>

lemma target_defaults_rate:
  "tc_SamplingRate t \<noteq> 0 \<Longrightarrow> tc_SamplingRate (target_defaults t) = tc_SamplingRate t"
  by (simp add: target_defaults_def Let_def)

lemma Load_keeps_validated_settings:
  assumes "Load (Decoded c) = Inr c'"
  shows "Thresholds (Monitoring c') = Thresholds (Monitoring c) \<and>
         map tc_SamplingRate (Targets (Monitoring c')) = map tc_SamplingRate (Targets (Monitoring c))"
proof -
  from assms have v: "Validate c = None" and c': "c' = SetDefaults c"
    by (auto simp: Load_def split: option.splits)
  from v have t: "validate_targets 0 (Targets (Monitoring c)) = None"
    and th: "at_CPU (Thresholds (Monitoring c)) \<noteq> 0" "at_Memory (Thresholds (Monitoring c)) \<noteq> 0"
      "at_NetworkLatency (Thresholds (Monitoring c)) \<noteq> 0"
    by (auto simp: Validate_def Let_def split: if_splits option.splits)
  have "tc_SamplingRate (target_defaults x) = tc_SamplingRate x" if "x \<in> set (Targets (Monitoring c))" for x
    using validate_targets_rate [OF t that] by (intro target_defaults_rate) (simp add: Second_def)
  then have r: "map tc_SamplingRate (map target_defaults (Targets (Monitoring c))) =
      map tc_SamplingRate (Targets (Monitoring c))"
    by simp
  from th r show ?thesis by (simp add: c' SetDefaults_def Let_def)
qed

text \<open>
  C6. Load validates before it sets defaults, so a file that omits the sampling rate of
  its target is rejected (a rate of 0 is below one second), and one that gives the rate
  and omits the alert thresholds is rejected as well (a CPU threshold of 0 is out of
  range): the defaults SetDefaults holds for these settings are never applied.
\<close>

theorem Load_rejects_omitted_settings:
  "Load (Decoded minimal_config) = Inl (ValidationFailed (SamplingRateTooSmall 0)) \<and>
   Load (Decoded minimal_config_with_rate) = Inl (ValidationFailed CPUThresholdOutOfRange)"
  by (simp add: Load_def Validate_def minimal_config_def minimal_config_with_rate_def Second_def)

section \<open>The metrics endpoints\<close>

text \<open>The body DaemonServer.metricsHandler writes for the monitor as NewMonitor creates it.\<close>

lemma DaemonServer_body_of_new_monitor:
  "NewMonitor True \<lparr>arrays = [], objects = []\<rparr> = Some (stopped_monitor, new_heap) \<and>
   fst (metricsHandler fmt_f2 new_heap stopped_monitor) =
     ''# HELP microradar_containers_total '' @ help_containers_total @ nl
     @ ''# TYPE microradar_containers_total gauge'' @ nl
     @ ''microradar_containers_total 0'' @ nl
     @ ''# HELP microradar_memory_usage_bytes '' @ help_memory_usage @ nl
     @ ''# TYPE microradar_memory_usage_bytes gauge'' @ nl
     @ ''microradar_memory_usage_bytes 0'' @ nl \<and>
   metric_lines (fst (metricsHandler fmt_f2 new_heap stopped_monitor)) =
     [''microradar_containers_total 0'', ''microradar_memory_usage_bytes 0'']"
proof -
  have n: "NewMonitor True \<lparr>arrays = [], objects = []\<rparr> = Some (stopped_monitor, new_heap)"
    by (simp add: NewMonitor_def make_slice_def stopped_monitor_def new_heap_def)
  have z: "show_base 10 0 = ''0''"
    by (simp add: show_base.simps digit_char_def)
  have g: "GetMetrics new_heap stopped_monitor =
      (1, \<lparr>arrays = [[], []],
           objects = [\<lparr>Containers = Slice 0 0, SystemMemory = 0, EBPFMapsCount = 0, LastUpdate = 0\<rparr>,
                      \<lparr>Containers = Slice 1 0, SystemMemory = 0, EBPFMapsCount = 0, LastUpdate = 0\<rparr>]\<rparr>)"
    by (simp add: GetMetrics_def make_slice_def copy_slice_def new_heap_def stopped_monitor_def)
  have b: "fst (metricsHandler fmt_f2 new_heap stopped_monitor) =
     ''# HELP microradar_containers_total '' @ help_containers_total @ nl
     @ ''# TYPE microradar_containers_total gauge'' @ nl
     @ ''microradar_containers_total 0'' @ nl
     @ ''# HELP microradar_memory_usage_bytes '' @ help_memory_usage @ nl
     @ ''# TYPE microradar_memory_usage_bytes gauge'' @ nl
     @ ''microradar_memory_usage_bytes 0'' @ nl"
    by (simp add: metricsHandler_def g z)
  have l: "metric_lines (fst (metricsHandler fmt_f2 new_heap stopped_monitor)) =
     [''microradar_containers_total 0'', ''microradar_memory_usage_bytes 0'']"
    unfolding b by (simp add: metric_lines_def nl_def help_containers_total_def help_memory_usage_def)
  from n b l show ?thesis by simp
qed














section \<open>Properties of the runtime resolver\<close>

lemma split_from_nonempty: "split_from sep acc s \<noteq> []"
  by (induction sep acc s rule: split_from.induct) auto

lemma Index_Nil_sep: "sep \<noteq> [] \<Longrightarrow> Index [] sep = None"
  by simp

lemma split_from_absent:
  "sep \<noteq> [] \<Longrightarrow> Index s sep = None \<Longrightarrow> split_from sep acc s = [acc @ s]"
proof (induction s arbitrary: acc)
  case Nil
  then show ?case by simp
next
  case (Cons c cs)
  from Cons.prems have np: "\<not> HasPrefix (c # cs) sep" and "Index cs sep = None"
    by (auto split: if_splits)
  with Cons.IH [of "acc @ [c]"] Cons.prems(1) show ?case by simp
qed

lemma split_from_present:
  "sep \<noteq> [] \<Longrightarrow> Index s sep = Some i \<Longrightarrow>
     split_from sep acc s = (acc @ take i s) # split_from sep [] (drop (i + length sep) s)"
proof (induction s arbitrary: acc i)
  case Nil
  then show ?case by simp
next
  case (Cons c cs)
  show ?case
  proof (cases "HasPrefix (c # cs) sep")
    case True
    with Cons.prems have "i = 0" by simp
    with True Cons.prems(1) show ?thesis by simp
  next
    case False
    with Cons.prems obtain j where j: "Index cs sep = Some j" "i = Suc j"
      by (auto split: if_splits)
    from Cons.IH [OF Cons.prems(1) j(1), of "acc @ [c]"] False j(2) show ?thesis by simp
  qed
qed

lemma Split_second:
  assumes "sep \<noteq> []" "segment_after line sep = Some seg"
  shows "length (Split line sep) > 1 \<and> Split line sep ! 1 = seg"
proof -
  from assms(2) obtain i where i: "Index line sep = Some i"
    by (auto simp: segment_after_def split: option.splits)
  let ?rest = "drop (i + length sep) line"
  from assms(2) i have seg: "seg = (case Index ?rest sep of None \<Rightarrow> ?rest | Some j \<Rightarrow> take j ?rest)"
    by (simp add: segment_after_def Let_def)
  have parts: "Split line sep = take i line # split_from sep [] ?rest"
    using split_from_present [OF assms(1) i, of "[]"] assms(1) by (simp add: Split_def)
  have hd: "split_from sep [] ?rest = seg # tl (split_from sep [] ?rest)"
  proof (cases "Index ?rest sep")
    case None
    from split_from_absent [OF assms(1) None, of "[]"] seg None show ?thesis by simp
  next
    case (Some j)
    from split_from_present [OF assms(1) Some, of "[]"] seg Some show ?thesis by simp
  qed
  have "length (Split line sep) > 1" using parts split_from_nonempty [of sep "[]" ?rest]
    by (cases "split_from sep [] ?rest") simp_all
  moreover have "Split line sep ! 1 = seg" using parts hd by (metis One_nat_def nth_Cons_0 nth_Cons_Suc)
  ultimately show ?thesis by simp
qed

lemma Split_absent:
  assumes "sep \<noteq> []" "\<not> Contains line sep"
  shows "Split line sep = [line]"
  using assms split_from_absent [of sep line "[]"] by (simp add: Split_def Contains_def)

lemma segment_after_Contains: "segment_after line sep = Some seg \<Longrightarrow> Contains line sep"
  by (auto simp: segment_after_def Contains_def split: option.splits)

lemma extract_primary:
  assumes "(runtime, sig) \<in> {(''docker'', ''/docker/''), (''containerd'', ''/containerd/''), (''cri-o'', ''/crio-'')}"
    and "segment_after line sig = Some seg"
  shows "isContainerCgroup line runtime" and "extractContainerID line runtime = TrimSpace seg"
proof -
  from assms(1) have ne: "sig \<noteq> []" by auto
  note sp = Split_second [OF ne assms(2)]
  note ct = segment_after_Contains [OF assms(2)]
  from assms(1) ct show "isContainerCgroup line runtime"
    by (auto simp: isContainerCgroup_def)
  from assms(1) sp show "extractContainerID line runtime = TrimSpace seg"
    by (auto simp: extractContainerID_def Let_def)
qed

lemma scan_lines_skips:
  "scan_lines now lines runtime pid =
     scan_lines now (filter (\<lambda>l. isContainerCgroup l runtime) lines) runtime pid"
  by (induction lines) auto

lemma Index_first:
  "Index s sub = Some i \<Longrightarrow> HasPrefix (drop i s) sub \<and> (\<forall>j<i. \<not> HasPrefix (drop j s) sub)"
proof (induction s arbitrary: i)
  case Nil
  then show ?case by (auto split: if_splits)
next
  case (Cons c cs)
  show ?case
  proof (cases "HasPrefix (c # cs) sub")
    case True
    with Cons.prems show ?thesis by simp
  next
    case False
    with Cons.prems obtain k where k: "Index cs sub = Some k" "i = Suc k"
      by (auto split: if_splits)
    from Cons.IH [OF k(1)] False k(2) show ?thesis
      by (auto simp: less_Suc_eq_0_disj)
  qed
qed

lemma HasPrefix_iff: "HasPrefix s p \<longleftrightarrow> take (length p) s = p"
  by (induction s p rule: HasPrefix.induct) auto

text \<open>
  What the resolver does with a line that carries the signature extractContainerID
  splits at: the id is the text between the first occurrence of the signature and the
  next one (or the end of the line), trimmed; a line whose id is empty gives no record,
  and a line isContainerCgroup rejects is skipped.
\<close>

lemma first_signature_extracts_id:
  "((runtime, sig) \<in> {(''docker'', ''/docker/''), (''containerd'', ''/containerd/''), (''cri-o'', ''/crio-'')} \<and>
    ascii line \<and> segment_after line sig = Some seg \<longrightarrow>
      isContainerCgroup line runtime \<and>
      extractContainerID line runtime = TrimSpace seg \<and>
      parseCgroupFile now (Some [line]) runtime pid =
        (if TrimSpace seg = [] then None
         else Some \<lparr>cri_ID = TrimSpace seg, cri_Name = [], cri_Image = [], cri_Status = ''running'',
                     cri_Runtime = runtime, cri_CgroupPath = line, cri_CgroupID = 0, cri_PID = pid,
                     cri_Labels = None, cri_CreatedAt = fst now, cri_StartedAt = snd now\<rparr>)) \<and>
   (\<not> isContainerCgroup line runtime \<longrightarrow> parseCgroupFile now (Some [line]) runtime pid = None) \<and>
   parseCgroupFile now (Some lines) runtime pid =
     parseCgroupFile now (Some (filter (\<lambda>l. isContainerCgroup l runtime) lines)) runtime pid"
proof -
  have a: "isContainerCgroup line runtime \<and>
      extractContainerID line runtime = TrimSpace seg \<and>
      parseCgroupFile now (Some [line]) runtime pid =
        (if TrimSpace seg = [] then None
         else Some \<lparr>cri_ID = TrimSpace seg, cri_Name = [], cri_Image = [], cri_Status = ''running'',
                     cri_Runtime = runtime, cri_CgroupPath = line, cri_CgroupID = 0, cri_PID = pid,
                     cri_Labels = None, cri_CreatedAt = fst now, cri_StartedAt = snd now\<rparr>)"
    if "(runtime, sig) \<in> {(''docker'', ''/docker/''), (''containerd'', ''/containerd/''), (''cri-o'', ''/crio-'')}"
      and "segment_after line sig = Some seg"
    using extract_primary [OF that] by (simp add: parseCgroupFile_def)
  have b: "parseCgroupFile now (Some [line]) runtime pid = None" if "\<not> isContainerCgroup line runtime"
    using that by (simp add: parseCgroupFile_def)
  have c: "parseCgroupFile now (Some lines) runtime pid =
     parseCgroupFile now (Some (filter (\<lambda>l. isContainerCgroup l runtime) lines)) runtime pid"
    using scan_lines_skips [of now lines runtime pid] by (simp add: parseCgroupFile_def)
  from a b c show ?thesis by blast
qed

lemma nested_and_empty_ids:
  "parseCgroupFile (9, 10) (Some [''12:cpu:/docker/'']) ''docker'' 42 = None \<and>
   map_option cri_ID (parseCgroupFile (9, 10) (Some [''0::/docker/abc/docker/def'']) ''docker'' 42) = Some ''abc''"
  by (simp add: Contains_def isContainerCgroup_def parseCgroupFile_def extractContainerID_def
      Split_def TrimSpace_def is_space_def)

text \<open>
  C7. A line that carries only the second signature of its runtime (/docker-,
  /k8s.io/, /crio/) is classified as a container line of that runtime by
  isContainerCgroup, but extractContainerID splits at the first signature only and
  finds no id, so no record is returned. And GetContainers passes the name crio for the
  runtime cri-o, a name isContainerCgroup does not know, so it returns no cri-o
  container at all, although parseCgroupFile called with cri-o finds the id.
\<close>

theorem resolver_drops_second_signature:
  "isContainerCgroup ''0::/system.slice/docker-abc123.scope'' ''docker'' \<and>
   extractContainerID ''0::/system.slice/docker-abc123.scope'' ''docker'' = [] \<and>
   parseCgroupFile (9, 10) (Some [''0::/system.slice/docker-abc123.scope'']) ''docker'' 42 = None \<and>
   isContainerCgroup ''0::/k8s.io/abc123'' ''containerd'' \<and>
   parseCgroupFile (9, 10) (Some [''0::/k8s.io/abc123'']) ''containerd'' 42 = None \<and>
   isContainerCgroup ''0::/kubepods/crio/abc123'' ''cri-o'' \<and>
   parseCgroupFile (9, 10) (Some [''0::/kubepods/crio/abc123'']) ''cri-o'' 42 = None \<and>
   map_option cri_ID (parseCgroupFile (9, 10) (Some [''0::/kubepods/crio-abc123'']) ''cri-o'' 42) = Some ''abc123'' \<and>
   GetContainers (\<lambda>i. (9, 10)) (Some [\<lparr>pe_is_dir = True, pe_pid = Some 42,
      pe_cgroup = Some [''0::/kubepods/crio-abc123'']\<rparr>]) ''cri-o'' = Inr []"
  by (simp add: GetContainers_def parseContainersFromCgroup_def Contains_def isContainerCgroup_def
      parseCgroupFile_def extractContainerID_def Split_def TrimSpace_def is_space_def)

end
